theory Spec2Isabelle
  imports Complex_Main "HOL-Library.Sublist" "HOL-Library.Multiset"
begin

section \<open>JavaScript values, strings and errors\<close>

text \<open>
  A JavaScript string is modelled as a \<^typ>\<open>string\<close>, read as a sequence of code units
  below 256; \<open>length\<close> is the JavaScript \<open>.length\<close>. A value of unknown shape (a decoded
  JSON document, a field outside the declared interface) is a \<open>jsval\<close>.

  A JavaScript number is a finite value, NaN, or one of the two infinities. Finite values
  are reals, so the rounding and the overflow of floating-point arithmetic and the sign
  of zero are left out.
\<close>

datatype number = Fin real | NaN | PosInf | NegInf

text \<open>\<open>x + y\<close> and \<open>x * y\<close> on numbers.\<close>

fun num_add :: "number \<Rightarrow> number \<Rightarrow> number" where
  "num_add (Fin x) (Fin y) = Fin (x + y)"
| "num_add NaN y = NaN"
| "num_add x NaN = NaN"
| "num_add PosInf NegInf = NaN"
| "num_add NegInf PosInf = NaN"
| "num_add PosInf y = PosInf"
| "num_add NegInf y = NegInf"
| "num_add (Fin x) y = y"

fun num_neg :: "number \<Rightarrow> number" where
  "num_neg (Fin x) = Fin (- x)"
| "num_neg NaN = NaN"
| "num_neg PosInf = NegInf"
| "num_neg NegInf = PosInf"

fun num_mul :: "number \<Rightarrow> number \<Rightarrow> number" where
  "num_mul (Fin x) (Fin y) = Fin (x * y)"
| "num_mul NaN y = NaN"
| "num_mul x NaN = NaN"
| "num_mul PosInf (Fin y) = (if y = 0 then NaN else if 0 < y then PosInf else NegInf)"
| "num_mul NegInf (Fin y) = (if y = 0 then NaN else if 0 < y then NegInf else PosInf)"
| "num_mul (Fin x) PosInf = (if x = 0 then NaN else if 0 < x then PosInf else NegInf)"
| "num_mul (Fin x) NegInf = (if x = 0 then NaN else if 0 < x then NegInf else PosInf)"
| "num_mul PosInf y = y"
| "num_mul NegInf y = num_neg y"

text \<open>\<open>Math.max(x, y)\<close> and \<open>Math.min(x, y)\<close>: NaN as soon as one argument is NaN.\<close>

fun Math_max :: "number \<Rightarrow> number \<Rightarrow> number" where
  "Math_max (Fin x) (Fin y) = Fin (max x y)"
| "Math_max NaN y = NaN"
| "Math_max x NaN = NaN"
| "Math_max PosInf y = PosInf"
| "Math_max x PosInf = PosInf"
| "Math_max NegInf y = y"
| "Math_max x NegInf = x"

fun Math_min :: "number \<Rightarrow> number \<Rightarrow> number" where
  "Math_min (Fin x) (Fin y) = Fin (min x y)"
| "Math_min NaN y = NaN"
| "Math_min x NaN = NaN"
| "Math_min NegInf y = NegInf"
| "Math_min x NegInf = NegInf"
| "Math_min PosInf y = y"
| "Math_min x PosInf = x"

text \<open>A number in a condition: zero and NaN are falsy.\<close>

definition truthy_number :: "number \<Rightarrow> bool" where
  "truthy_number n = (n \<noteq> Fin 0 \<and> n \<noteq> NaN)"

datatype jsval =
    Undefined
  | Null
  | Bool bool
  | Number number
  | Str string
  | Arr "jsval list"
  | Obj "(string \<times> jsval) list"

text \<open>A finite number as a value.\<close>

abbreviation Num :: "real \<Rightarrow> jsval" where
  "Num r \<equiv> Number (Fin r)"

text \<open>Every \<open>throw\<close> of the source and every rejection of a platform promise is a value.\<close>

datatype error =
    TypeError
  | SyntaxError
  | FetchFailed
  | StorageFailed
  | NotConfigured
  | ApiError string nat
  | OllamaError nat string
  | CouldNotParse
  | NoJsonFound
  | UnknownProvider string

text \<open>\<open>try { body } catch { handler }\<close>.\<close>

definition try_catch :: "error + 'a \<Rightarrow> (error \<Rightarrow> error + 'a) \<Rightarrow> error + 'a" where
  "try_catch body handler = (case body of Inl e \<Rightarrow> handler e | Inr v \<Rightarrow> Inr v)"

text \<open>\<open>x || d\<close> on an optional string: absent and empty are both falsy.\<close>

definition or_else :: "string option \<Rightarrow> string \<Rightarrow> string" where
  "or_else x d = (case x of None \<Rightarrow> d | Some s \<Rightarrow> if s = [] then d else s)"

definition truthy :: "string option \<Rightarrow> bool" where
  "truthy x = (case x of None \<Rightarrow> False | Some s \<Rightarrow> s \<noteq> [])"

text \<open>
  \<open>toLowerCase\<close> on the code units below 256: the letters \<open>A\<close> to \<open>Z\<close>, and the accented
  capitals U+00C0 to U+00DE without the multiplication sign U+00D7, each 32 below its
  small letter.
\<close>

definition upperLetters :: string where
  "upperLetters = ''ABCDEFGHIJKLMNOPQRSTUVWXYZ'' @
     [CHR 0xC0, CHR 0xC1, CHR 0xC2, CHR 0xC3, CHR 0xC4, CHR 0xC5, CHR 0xC6, CHR 0xC7,
      CHR 0xC8, CHR 0xC9, CHR 0xCA, CHR 0xCB, CHR 0xCC, CHR 0xCD, CHR 0xCE, CHR 0xCF,
      CHR 0xD0, CHR 0xD1, CHR 0xD2, CHR 0xD3, CHR 0xD4, CHR 0xD5, CHR 0xD6, CHR 0xD8,
      CHR 0xD9, CHR 0xDA, CHR 0xDB, CHR 0xDC, CHR 0xDD, CHR 0xDE]"

definition lowerLetters :: string where
  "lowerLetters = ''abcdefghijklmnopqrstuvwxyz'' @
     [CHR 0xE0, CHR 0xE1, CHR 0xE2, CHR 0xE3, CHR 0xE4, CHR 0xE5, CHR 0xE6, CHR 0xE7,
      CHR 0xE8, CHR 0xE9, CHR 0xEA, CHR 0xEB, CHR 0xEC, CHR 0xED, CHR 0xEE, CHR 0xEF,
      CHR 0xF0, CHR 0xF1, CHR 0xF2, CHR 0xF3, CHR 0xF4, CHR 0xF5, CHR 0xF6, CHR 0xF8,
      CHR 0xF9, CHR 0xFA, CHR 0xFB, CHR 0xFC, CHR 0xFD, CHR 0xFE]"

definition toLowerChar :: "char \<Rightarrow> char" where
  "toLowerChar c = (case map_of (zip upperLetters lowerLetters) c of Some l \<Rightarrow> l | None \<Rightarrow> c)"

definition toLowerCase :: "string \<Rightarrow> string" where
  "toLowerCase s = map toLowerChar s"

text \<open>\<open>s.includes(sub)\<close>: \<open>sub\<close> occurs in \<open>s\<close> as a contiguous block.\<close>

definition str_includes :: "string \<Rightarrow> string \<Rightarrow> bool" where
  "str_includes s sub = sublist sub s"

section \<open>The estimator's input\<close>

text \<open>
  \<open>interface AssignmentInput\<close>: six optional declared fields and an index signature
  \<open>[key: string]: unknown\<close>, kept as a map from the remaining field names.
\<close>

record assignment =
  title :: "string option"
  type :: "string option"
  courseName :: "string option"
  pointsPossible :: "number option"
  submissionTypes :: "string list option"
  description :: "string option"
  other :: "string \<rightharpoonup> jsval"

section \<open>The heuristic scorer\<close>

record rules =
  base :: real
  perPoint :: real

definition defaultEstimates :: "(string \<times> rules) list" where
  "defaultEstimates =
     [(''quiz'', \<lparr>base = 30, perPoint = 1\<rparr>),
      (''discussion'', \<lparr>base = 45, perPoint = 2\<rparr>),
      (''assignment'', \<lparr>base = 60, perPoint = 3\<rparr>),
      (''essay'', \<lparr>base = 120, perPoint = 5\<rparr>),
      (''project'', \<lparr>base = 180, perPoint = 8\<rparr>),
      (''exam'', \<lparr>base = 90, perPoint = 2\<rparr>),
      (''reading'', \<lparr>base = 30, perPoint = 1\<rparr>),
      (''default'', \<lparr>base = 60, perPoint = 2\<rparr>)]"

definition categorizeAssignment :: "assignment \<Rightarrow> string" where
  "categorizeAssignment a =
     (let ttl = toLowerCase (or_else (title a) []);
          typ = toLowerCase (or_else (type a) [])
      in if typ = ''quiz'' \<or> str_includes ttl ''quiz'' then ''quiz''
         else if typ = ''discussion'' \<or> str_includes ttl ''discussion'' then ''discussion''
         else if str_includes ttl ''essay'' \<or> str_includes ttl ''paper'' then ''essay''
         else if str_includes ttl ''project'' \<or> str_includes ttl ''presentation'' then ''project''
         else if str_includes ttl ''exam'' \<or> str_includes ttl ''test'' \<or> str_includes ttl ''midterm''
                 \<or> str_includes ttl ''final'' then ''exam''
         else if str_includes ttl ''reading'' \<or> str_includes ttl ''read'' then ''reading''
         else ''assignment'')"

text \<open>
  \<open>this.defaultEstimates[type] || this.defaultEstimates.default\<close>; \<open>None\<close> is
  \<open>undefined\<close>, on which the following \<open>rules.base\<close> raises a TypeError.
\<close>

definition rulesFor :: "string \<Rightarrow> rules option" where
  "rulesFor ty =
     (case map_of defaultEstimates ty of
        Some r \<Rightarrow> Some r
      | None \<Rightarrow> map_of defaultEstimates ''default'')"

text \<open>
  \<open>typeof assignment.pointsPossible === 'number'\<close> holds of every number, NaN and the
  infinities among them, and fails when the field is absent.
\<close>

definition getHeuristicEstimate :: "assignment \<Rightarrow> error + number" where
  "getHeuristicEstimate a =
     (case rulesFor (categorizeAssignment a) of
        None \<Rightarrow> Inl TypeError
      | Some rs \<Rightarrow>
          (let m0 = Fin (base rs);
               m1 = (case pointsPossible a of
                       Some p \<Rightarrow> num_add m0 (num_mul p (Fin (perPoint rs)))
                     | None \<Rightarrow> m0);
               m2 = (case submissionTypes a of
                       Some ts \<Rightarrow>
                         (let u = (if ''online_upload'' \<in> set ts then num_add m1 (Fin 15) else m1)
                          in if ''media_recording'' \<in> set ts then num_add u (Fin 30) else u)
                     | None \<Rightarrow> m1)
           in Inr (Math_min (Math_max m2 (Fin 15)) (Fin 480))))"

text \<open>
  The older JavaScript variant of the same method tests \<open>if (assignment.pointsPossible)\<close>
  (zero and NaN are falsy) and \<open>if (assignment.submissionTypes)\<close> (every array is truthy).
\<close>

definition getHeuristicEstimate_js :: "assignment \<Rightarrow> error + number" where
  "getHeuristicEstimate_js a =
     (case rulesFor (categorizeAssignment a) of
        None \<Rightarrow> Inl TypeError
      | Some rs \<Rightarrow>
          (let m0 = Fin (base rs);
               m1 = (case pointsPossible a of
                       Some p \<Rightarrow> if truthy_number p
                                  then num_add m0 (num_mul p (Fin (perPoint rs))) else m0
                     | None \<Rightarrow> m0);
               m2 = (case submissionTypes a of
                       Some ts \<Rightarrow>
                         (let u = (if ''online_upload'' \<in> set ts then num_add m1 (Fin 15) else m1)
                          in if ''media_recording'' \<in> set ts then num_add u (Fin 30) else u)
                     | None \<Rightarrow> m1)
           in Inr (Math_min (Math_max m2 (Fin 15)) (Fin 480))))"

section \<open>Regular expressions\<close>

text \<open>
  The four regular expressions of the source are sequences of single-character atoms,
  greedy stars and optional characters. \<open>match_here\<close> is the backtracking matcher of
  JavaScript on that fragment: it tries the longer alternative first and gives the first
  success. \<open>Mark\<close> records the position of a parenthesis; the result holds the input left
  at each mark and the input left after the match.
\<close>

datatype atom =
    One "char \<Rightarrow> bool"
  | Star "char \<Rightarrow> bool"
  | Opt "char \<Rightarrow> bool"
  | Mark

fun match_here :: "atom list \<Rightarrow> string \<Rightarrow> (string list \<times> string) option" where
  "match_here [] s = Some ([], s)"
| "match_here (Mark # r) s =
     (case match_here r s of None \<Rightarrow> None | Some (ms, e) \<Rightarrow> Some (s # ms, e))"
| "match_here (One p # r) [] = None"
| "match_here (One p # r) (c # cs) = (if p c then match_here r cs else None)"
| "match_here (Opt p # r) [] = match_here r []"
| "match_here (Opt p # r) (c # cs) =
     (if p c
      then (case match_here r cs of Some x \<Rightarrow> Some x | None \<Rightarrow> match_here r (c # cs))
      else match_here r (c # cs))"
| "match_here (Star p # r) [] = match_here r []"
| "match_here (Star p # r) (c # cs) =
     (if p c
      then (case match_here (Star p # r) cs of
              Some x \<Rightarrow> Some x
            | None \<Rightarrow> match_here r (c # cs))
      else match_here r (c # cs))"

text \<open>
  \<open>s.match(re)\<close> without the \<open>g\<close> flag: the leftmost position where the matcher
  succeeds. The result is the input from the start of the match, the marks, and the input
  after the match.
\<close>

fun regex_exec :: "atom list \<Rightarrow> string \<Rightarrow> (string \<times> string list \<times> string) option" where
  "regex_exec r [] =
     (case match_here r [] of None \<Rightarrow> None | Some (ms, e) \<Rightarrow> Some ([], ms, e))"
| "regex_exec r (c # cs) =
     (case match_here r (c # cs) of
        None \<Rightarrow> regex_exec r cs
      | Some (ms, e) \<Rightarrow> Some (c # cs, ms, e))"

text \<open>The text between two positions, each given by the input left there.\<close>

definition between :: "string \<Rightarrow> string \<Rightarrow> string" where
  "between from_here to_here = take (length from_here - length to_here) from_here"

text \<open>\<open>match[0]\<close> and \<open>match[1]\<close>.\<close>

definition whole_match :: "string \<times> string list \<times> string \<Rightarrow> string" where
  "whole_match m = (case m of (st, ms, e) \<Rightarrow> between st e)"

definition group1 :: "string \<times> string list \<times> string \<Rightarrow> string" where
  "group1 m = (case m of (st, ms, e) \<Rightarrow>
     (case ms of a # b # _ \<Rightarrow> between a b | _ \<Rightarrow> []))"

text \<open>
  \<open>s.replace(re, rep)\<close> with the \<open>g\<close> flag and a constant replacement. After an empty
  match the scan advances by one character.
\<close>

function replace_all :: "atom list \<Rightarrow> string \<Rightarrow> string \<Rightarrow> string" where
  "replace_all r rep [] = (case match_here r [] of None \<Rightarrow> [] | Some x \<Rightarrow> rep)"
| "replace_all r rep (c # cs) =
     (case match_here r (c # cs) of
        None \<Rightarrow> c # replace_all r rep cs
      | Some (ms, e) \<Rightarrow>
          if length e < length (c # cs) then rep @ replace_all r rep e
          else rep @ c # replace_all r rep cs)"
  by pat_completeness auto
termination
  by (relation "measure (\<lambda>(r, rep, s). length s)") auto

definition lit :: "string \<Rightarrow> atom list" where
  "lit s = map (\<lambda>x. One (\<lambda>c. c = x)) s"

text \<open>A letter under the \<open>i\<close> flag.\<close>

definition ci :: "char \<Rightarrow> atom" where
  "ci x = One (\<lambda>c. toLowerChar c = x)"

definition is_digit :: "char \<Rightarrow> bool" where
  "is_digit c = (c \<in> set ''0123456789'')"

text \<open>
  \<open>\s\<close>, and what \<open>trim\<close> removes, on the code units below 256: space, tab, line feed,
  vertical tab, form feed, carriage return and the no-break space U+00A0.
\<close>

definition is_space :: "char \<Rightarrow> bool" where
  "is_space c = (c \<in> set [CHR '' '', CHR 0x09, CHR 0x0A, CHR 0x0B, CHR 0x0C, CHR 0x0D, CHR 0xA0])"

text \<open>\<open>/(\d+)\s*minutes?/i\<close>\<close>

definition minutes_regex :: "atom list" where
  "minutes_regex =
     [Mark, One is_digit, Star is_digit, Mark, Star is_space,
      ci CHR ''m'', ci CHR ''i'', ci CHR ''n'', ci CHR ''u'', ci CHR ''t'', ci CHR ''e'',
      Opt (\<lambda>c. toLowerChar c = CHR ''s'')]"

text \<open>\<open>/\{[\s\S]*"minutes"[\s\S]*\}/\<close>\<close>

definition ollama_json_regex :: "atom list" where
  \<open>ollama_json_regex =
     lit ''{'' @ [Star (\<lambda>c. True)] @ lit ''"minutes"'' @ [Star (\<lambda>c. True)] @ lit ''}''\<close>

text \<open>\<open>/<[^>]*>/g\<close> and \<open>/\s+/g\<close>\<close>

definition tag_regex :: "atom list" where
  "tag_regex = [One (\<lambda>c. c = CHR ''<''), Star (\<lambda>c. c \<noteq> CHR ''>''), One (\<lambda>c. c = CHR ''>'')]"

definition spaces_regex :: "atom list" where
  "spaces_regex = [One is_space, Star is_space]"

text \<open>
  \<open>parseInt\<close> on a string of decimal digits, as the number the digits denote (a double
  holds it exactly up to 2 to the power 53).
\<close>

definition digit_value :: "char \<Rightarrow> nat" where
  "digit_value c =
     (case map_of (zip ''0123456789'' [0, 1, 2, 3, 4, 5, 6, 7, 8, 9]) c of
        Some d \<Rightarrow> d
      | None \<Rightarrow> 0)"

definition parseInt :: "string \<Rightarrow> nat" where
  "parseInt ds = foldl (\<lambda>n c. 10 * n + digit_value c) 0 ds"

section \<open>Text helpers of the estimator\<close>

definition trim :: "string \<Rightarrow> string" where
  "trim s = rev (dropWhile is_space (rev (dropWhile is_space s)))"

definition stripHtml :: "string \<Rightarrow> string" where
  "stripHtml html =
     (if html = [] then []
      else trim (replace_all spaces_regex '' '' (replace_all tag_regex '' '' html)))"

definition truncate_text :: "string \<Rightarrow> nat \<Rightarrow> string" where
  "truncate_text text maxLength =
     (if text = [] \<or> length text \<le> maxLength then text
      else take maxLength text @ ''...'')"

text \<open>\<open>xs.join(sep)\<close>\<close>

fun join :: "string \<Rightarrow> string list \<Rightarrow> string" where
  "join sep [] = []"
| "join sep [x] = x"
| "join sep (x # y # ys) = x @ sep @ join sep (y # ys)"

section \<open>Property access on decoded JSON\<close>

text \<open>
  \<open>v.name\<close> for the property names the source reads (\<open>choices\<close>, \<open>message\<close>,
  \<open>content\<close>, \<open>text\<close>, \<open>response\<close>, \<open>minutes\<close>): a TypeError on \<open>undefined\<close> and
  \<open>null\<close>, the stored value on an object, \<open>undefined\<close> on everything else.
\<close>

definition nullish :: "jsval \<Rightarrow> bool" where
  "nullish v = (v = Undefined \<or> v = Null)"

definition get_prop :: "jsval \<Rightarrow> string \<Rightarrow> error + jsval" where
  "get_prop v name =
     (case v of
        Undefined \<Rightarrow> Inl TypeError
      | Null \<Rightarrow> Inl TypeError
      | Obj kvs \<Rightarrow> Inr (case map_of kvs name of Some x \<Rightarrow> x | None \<Rightarrow> Undefined)
      | _ \<Rightarrow> Inr Undefined)"

text \<open>\<open>v[0]\<close>\<close>

definition get_first :: "jsval \<Rightarrow> error + jsval" where
  "get_first v =
     (case v of
        Undefined \<Rightarrow> Inl TypeError
      | Null \<Rightarrow> Inl TypeError
      | Arr xs \<Rightarrow> Inr (case xs of [] \<Rightarrow> Undefined | x # _ \<Rightarrow> x)
      | Str s \<Rightarrow> Inr (case s of [] \<Rightarrow> Undefined | c # _ \<Rightarrow> Str [c])
      | Obj kvs \<Rightarrow> Inr (case map_of kvs ''0'' of Some x \<Rightarrow> x | None \<Rightarrow> Undefined)
      | _ \<Rightarrow> Inr Undefined)"

text \<open>\<open>v?.name\<close>\<close>

definition get_prop_opt :: "jsval \<Rightarrow> string \<Rightarrow> error + jsval" where
  "get_prop_opt v name = (if nullish v then Inr Undefined else get_prop v name)"

section \<open>The platform\<close>

text \<open>
  Functions of the JavaScript platform that the source calls and that are not code of the
  repository are parameters: \<open>JSON.parse\<close> (\<open>None\<close> is its SyntaxError), the rendering of a
  finite number in a template literal, and the millisecond value of \<open>new Date(v)\<close>
  (\<open>None\<close> is the invalid date, NaN).
\<close>

record platform =
  JSON_parse :: "string \<Rightarrow> jsval option"
  numToString :: "real \<Rightarrow> string"
  dateValue :: "jsval \<Rightarrow> real option"

text \<open>A number in a template literal.\<close>

fun show_number :: "(real \<Rightarrow> string) \<Rightarrow> number \<Rightarrow> string" where
  "show_number nts (Fin r) = nts r"
| "show_number nts NaN = ''NaN''"
| "show_number nts PosInf = ''Infinity''"
| "show_number nts NegInf = ''-Infinity''"

text \<open>The coercion of the argument of \<open>JSON.parse\<close> to a string.\<close>

fun js_to_string :: "(real \<Rightarrow> string) \<Rightarrow> jsval \<Rightarrow> string" where
  "js_to_string nts Undefined = ''undefined''"
| "js_to_string nts Null = ''null''"
| "js_to_string nts (Bool b) = (if b then ''true'' else ''false'')"
| "js_to_string nts (Number n) = show_number nts n"
| "js_to_string nts (Str s) = s"
| "js_to_string nts (Arr xs) =
     join '','' (map (\<lambda>x. if nullish x then [] else js_to_string nts x) xs)"
| "js_to_string nts (Obj kvs) = ''[object Object]''"

datatype http_result = NetworkFailure | Response nat string

definition response_ok :: "nat \<Rightarrow> bool" where
  "response_ok status = (200 \<le> status \<and> status \<le> 299)"

record request =
  req_url :: string
  req_headers :: "(string \<times> string) list"
  req_body :: jsval

text \<open>The keys \<open>configure\<close> reads from \<open>chrome.storage.sync\<close>; an unset key is \<open>None\<close>.\<close>

record settings =
  s_aiProvider :: "string option"
  s_openaiApiKey :: "string option"
  s_anthropicApiKey :: "string option"
  s_localLlmUrl :: "string option"
  s_localLlmModel :: "string option"
  s_estimationModel :: "string option"

text \<open>
  What the world answers during one call of \<open>estimateSingle\<close>: the settings read of
  \<open>configure\<close> (it may reject), the answer to an HTTP request, and the clock.
\<close>

record env =
  sync_get :: "error + settings"
  fetch :: "request \<Rightarrow> http_result"
  now :: real

section \<open>The estimation engine\<close>

record estimator =
  aiProvider :: "string option"
  apiKey :: "string option"
  model :: string
  localLlmUrl :: string
  localLlmModel :: string

definition new_TimeEstimator :: estimator where
  "new_TimeEstimator =
     \<lparr>aiProvider = None, apiKey = None, model = ''gpt-3.5-turbo'',
      localLlmUrl = ''http://localhost:11434'', localLlmModel = ''qwen2.5-coder:1.5b''\<rparr>"

definition configure :: "settings \<Rightarrow> estimator \<Rightarrow> estimator" where
  "configure st est =
     (let provider = or_else (s_aiProvider st) ''none'';
          e1 = est\<lparr>aiProvider := Some provider,
                    model := or_else (s_estimationModel st) ''gpt-3.5-turbo''\<rparr>
      in if provider = ''openai'' then e1\<lparr>apiKey := s_openaiApiKey st\<rparr>
         else if provider = ''anthropic'' then e1\<lparr>apiKey := s_anthropicApiKey st\<rparr>
         else if provider = ''local''
           then e1\<lparr>localLlmUrl := or_else (s_localLlmUrl st) ''http://localhost:11434'',
                    localLlmModel := or_else (s_localLlmModel st) ''qwen2.5-coder:1.5b''\<rparr>
         else e1)"

text \<open>
  The JavaScript variant of the class has no local backend and defaults the provider to
  \<open>openai\<close>; it never reads the two local fields of the record.
\<close>

definition configure_js :: "settings \<Rightarrow> estimator \<Rightarrow> estimator" where
  "configure_js st est =
     (let provider = or_else (s_aiProvider st) ''openai'';
          e1 = est\<lparr>aiProvider := Some provider,
                    model := or_else (s_estimationModel st) ''gpt-3.5-turbo''\<rparr>
      in if provider = ''openai'' then e1\<lparr>apiKey := s_openaiApiKey st\<rparr>
         else if provider = ''anthropic'' then e1\<lparr>apiKey := s_anthropicApiKey st\<rparr>
         else e1)"

text \<open>A template literal renders an absent field as \<open>undefined\<close>.\<close>

definition show_field :: "string option \<Rightarrow> string" where
  "show_field x = (case x of None \<Rightarrow> ''undefined'' | Some s \<Rightarrow> s)"

definition nl :: string where
  "nl = [CHR 0x0A]"

text \<open>\<open>.filter(Boolean)\<close> on a list of strings and \<open>null\<close>s.\<close>

definition filter_Boolean :: "string option list \<Rightarrow> string list" where
  "filter_Boolean xs = List.map_filter (\<lambda>x. case x of None \<Rightarrow> None
       | Some s \<Rightarrow> if s = [] then None else Some s) xs"

definition snippet_line :: "assignment \<Rightarrow> string option" where
  "snippet_line a =
     (case description a of
        None \<Rightarrow> None
      | Some d \<Rightarrow> if d = [] then None
                  else Some (''Description snippet: '' @ truncate_text (stripHtml d) 500))"

definition types_line :: "assignment \<Rightarrow> string option" where
  "types_line a =
     (case submissionTypes a of
        None \<Rightarrow> None
      | Some ts \<Rightarrow> if length ts = 0 then None
                   else Some (''Submission types: '' @ join '', '' ts))"

definition details :: "platform \<Rightarrow> assignment \<Rightarrow> string list" where
  "details pf a = filter_Boolean
     [Some (''Title: '' @ show_field (title a)),
      Some (''Type: '' @ show_field (type a)),
      Some (''Course: '' @ show_field (courseName a)),
      (case pointsPossible a of
         Some p \<Rightarrow> Some (''Points: '' @ show_number (numToString pf) p)
       | None \<Rightarrow> None),
      types_line a,
      snippet_line a]"

text \<open>The JavaScript variant renders the points line under \<open>assignment.pointsPossible ? ... : null\<close>.\<close>

definition details_js :: "platform \<Rightarrow> assignment \<Rightarrow> string list" where
  "details_js pf a = filter_Boolean
     [Some (''Title: '' @ show_field (title a)),
      Some (''Type: '' @ show_field (type a)),
      Some (''Course: '' @ show_field (courseName a)),
      (case pointsPossible a of
         Some p \<Rightarrow> if truthy_number p
                    then Some (''Points: '' @ show_number (numToString pf) p) else None
       | None \<Rightarrow> None),
      types_line a,
      snippet_line a]"

definition prompt_around :: "string \<Rightarrow> string" where
  \<open>prompt_around ds = join nl
     [''You are an academic workload estimator. Based on the following assignment details, estimate how many minutes it would take an average student to complete this assignment.'',
      [],
      ''Assignment Details:'',
      ds,
      [],
      ''Consider factors like:'',
      ''- Type of assignment (quiz, essay, project, discussion, etc.)'',
      ''- Complexity indicated by points'',
      ''- Submission type requirements'',
      ''- Subject matter complexity'',
      [],
      ''Respond with ONLY a JSON object in this exact format:'',
      ''{"minutes": <number>, "reasoning": "<brief explanation>"}'',
      [],
      ''Be realistic - most assignments take between 30 minutes and 4 hours. Only estimate longer for major projects or papers.'']\<close>

definition buildPrompt :: "platform \<Rightarrow> assignment \<Rightarrow> string" where
  "buildPrompt pf a = prompt_around (join nl (details pf a))"

definition buildPrompt_js :: "platform \<Rightarrow> assignment \<Rightarrow> string" where
  "buildPrompt_js pf a = prompt_around (join nl (details_js pf a))"

text \<open>Sequencing of calls that may raise.\<close>

definition and_then :: "error + 'a \<Rightarrow> ('a \<Rightarrow> error + 'b) \<Rightarrow> error + 'b" where
  "and_then m f = (case m of Inl e \<Rightarrow> Inl e | Inr v \<Rightarrow> f v)"

text \<open>
  The \<open>catch\<close> block shared by the three backend callers up to its last line:
  \<open>content.match(/(\d+)\s*minutes?/i)\<close> and the object built from the first group.
\<close>

definition minutes_from_text :: "string \<Rightarrow> jsval option" where
  "minutes_from_text content =
     (case regex_exec minutes_regex content of
        Some m \<Rightarrow> Some (Obj [(''minutes'', Num (real (parseInt (group1 m)))),
                               (''reasoning'', Str content)])
      | None \<Rightarrow> None)"

text \<open>
  The hosted callers: \<open>try { return JSON.parse(content) } catch { ... }\<close>. In the handler
  \<open>content.match\<close> raises a TypeError when \<open>content\<close> is not a string.
\<close>

definition parseHostedContent :: "platform \<Rightarrow> jsval \<Rightarrow> error + jsval" where
  "parseHostedContent pf content =
     try_catch
       (case JSON_parse pf (js_to_string (numToString pf) content) of
          Some v \<Rightarrow> Inr v
        | None \<Rightarrow> Inl SyntaxError)
       (\<lambda>err. case content of
                 Str s \<Rightarrow> (case minutes_from_text s of
                              Some r \<Rightarrow> Inr r
                            | None \<Rightarrow> Inl CouldNotParse)
               | _ \<Rightarrow> Inl TypeError)"

text \<open>\<open>data.choices[0]?.message?.content\<close> and \<open>data.content[0]?.text\<close>\<close>

definition openai_content :: "jsval \<Rightarrow> error + jsval" where
  "openai_content data =
     and_then (get_prop data ''choices'') (\<lambda>cs.
     and_then (get_first cs) (\<lambda>c0.
       if nullish c0 then Inr Undefined
       else and_then (get_prop c0 ''message'') (\<lambda>m. get_prop_opt m ''content'')))"

definition anthropic_content :: "jsval \<Rightarrow> error + jsval" where
  "anthropic_content data =
     and_then (get_prop data ''content'') (\<lambda>cs.
     and_then (get_first cs) (\<lambda>c0. get_prop_opt c0 ''text''))"

definition openai_request :: "estimator \<Rightarrow> string \<Rightarrow> request" where
  "openai_request est prompt =
     \<lparr>req_url = ''https://api.openai.com/v1/chat/completions'',
      req_headers = [(''Content-Type'', ''application/json''),
                     (''Authorization'', ''Bearer '' @ show_field (apiKey est))],
      req_body = Obj
        [(''model'', Str (model est)),
         (''messages'', Arr
            [Obj [(''role'', Str ''system''),
                  (''content'', Str ''You are an academic workload estimation assistant. Always respond with valid JSON.'')],
             Obj [(''role'', Str ''user''), (''content'', Str prompt)]]),
         (''temperature'', Num (3 / 10)),
         (''max_tokens'', Num 150)]\<rparr>"

definition callOpenAI :: "platform \<Rightarrow> env \<Rightarrow> estimator \<Rightarrow> string \<Rightarrow> error + jsval" where
  "callOpenAI pf ev est prompt =
     (case fetch ev (openai_request est prompt) of
        NetworkFailure \<Rightarrow> Inl FetchFailed
      | Response status body \<Rightarrow>
          if \<not> response_ok status then Inl (ApiError ''OpenAI'' status)
          else (case JSON_parse pf body of
                  None \<Rightarrow> Inl SyntaxError
                | Some data \<Rightarrow> and_then (openai_content data) (parseHostedContent pf)))"

definition anthropic_request :: "estimator \<Rightarrow> string \<Rightarrow> request" where
  "anthropic_request est prompt =
     \<lparr>req_url = ''https://api.anthropic.com/v1/messages'',
      req_headers = [(''Content-Type'', ''application/json''),
                     (''x-api-key'', or_else (apiKey est) []),
                     (''anthropic-version'', ''2023-06-01'')],
      req_body = Obj
        [(''model'', Str ''claude-3-haiku-20240307''),
         (''max_tokens'', Num 150),
         (''messages'', Arr [Obj [(''role'', Str ''user''), (''content'', Str prompt)]])]\<rparr>"

definition callAnthropic :: "platform \<Rightarrow> env \<Rightarrow> estimator \<Rightarrow> string \<Rightarrow> error + jsval" where
  "callAnthropic pf ev est prompt =
     (case fetch ev (anthropic_request est prompt) of
        NetworkFailure \<Rightarrow> Inl FetchFailed
      | Response status body \<Rightarrow>
          if \<not> response_ok status then Inl (ApiError ''Anthropic'' status)
          else (case JSON_parse pf body of
                  None \<Rightarrow> Inl SyntaxError
                | Some data \<Rightarrow> and_then (anthropic_content data) (parseHostedContent pf)))"

text \<open>
  The parse stage of \<open>callOllama\<close>, on the text of a successful response:
  \<open>try { match the object; JSON.parse it or throw } catch { number of minutes, or the
  default }\<close>.
\<close>

definition parseOllamaContent :: "platform \<Rightarrow> string \<Rightarrow> error + jsval" where
  "parseOllamaContent pf content =
     try_catch
       (case regex_exec ollama_json_regex content of
          Some jsonMatch \<Rightarrow>
            (case JSON_parse pf (whole_match jsonMatch) of
               Some v \<Rightarrow> Inr v
             | None \<Rightarrow> Inl SyntaxError)
        | None \<Rightarrow> Inl NoJsonFound)
       (\<lambda>err. case minutes_from_text content of
                 Some r \<Rightarrow> Inr r
               | None \<Rightarrow> Inr (Obj [(''minutes'', Num 60),
                                     (''reasoning'', Str ''Could not parse LLM response'')]))"

definition ollama_request :: "estimator \<Rightarrow> string \<Rightarrow> request" where
  "ollama_request est prompt =
     \<lparr>req_url = localLlmUrl est @ ''/api/generate'',
      req_headers = [(''Content-Type'', ''application/json'')],
      req_body = Obj
        [(''model'', Str (localLlmModel est)),
         (''prompt'', Str prompt),
         (''stream'', Bool False),
         (''options'', Obj [(''temperature'', Num (3 / 10))])]\<rparr>"

text \<open>
  \<open>callOllama\<close>. With a \<open>content\<close> that is not a string, \<open>content.match\<close> raises a
  TypeError in the \<open>try\<close> block and again in the \<open>catch\<close> block.
\<close>

definition callOllama :: "platform \<Rightarrow> env \<Rightarrow> estimator \<Rightarrow> string \<Rightarrow> error + jsval" where
  "callOllama pf ev est prompt =
     (case fetch ev (ollama_request est prompt) of
        NetworkFailure \<Rightarrow> Inl FetchFailed
      | Response status body \<Rightarrow>
          if \<not> response_ok status then Inl (OllamaError status body)
          else (case JSON_parse pf body of
                  None \<Rightarrow> Inl SyntaxError
                | Some data \<Rightarrow>
                    and_then (get_prop data ''response'') (\<lambda>content.
                      case content of
                        Str s \<Rightarrow> parseOllamaContent pf s
                      | _ \<Rightarrow> Inl TypeError)))"

definition getAIEstimate :: "platform \<Rightarrow> env \<Rightarrow> estimator \<Rightarrow> assignment \<Rightarrow> error + jsval" where
  "getAIEstimate pf ev est a =
     (let prompt = buildPrompt pf a
      in if aiProvider est = Some ''openai'' then callOpenAI pf ev est prompt
         else if aiProvider est = Some ''anthropic'' then callAnthropic pf ev est prompt
         else if aiProvider est = Some ''local'' then callOllama pf ev est prompt
         else Inl (UnknownProvider (show_field (aiProvider est))))"

definition getAIEstimate_js :: "platform \<Rightarrow> env \<Rightarrow> estimator \<Rightarrow> assignment \<Rightarrow> error + jsval" where
  "getAIEstimate_js pf ev est a =
     (let prompt = buildPrompt_js pf a
      in if aiProvider est = Some ''openai'' then callOpenAI pf ev est prompt
         else if aiProvider est = Some ''anthropic'' then callAnthropic pf ev est prompt
         else Inl (UnknownProvider (show_field (aiProvider est))))"

text \<open>
  \<open>{...assignment, estimatedMinutes, estimationMethod, estimatedAt: Date.now()}\<close>: the
  three names are outside the declared fields, so they land in the index signature.
\<close>

definition with_estimate :: "assignment \<Rightarrow> jsval \<Rightarrow> string \<Rightarrow> real \<Rightarrow> assignment" where
  "with_estimate a minutes method t =
     a\<lparr>other := (other a)(''estimatedMinutes'' \<mapsto> minutes,
                             ''estimationMethod'' \<mapsto> Str method,
                             ''estimatedAt'' \<mapsto> Num t)\<rparr>"

text \<open>The two assignments of the \<open>try\<close> block and of the heuristic branches.\<close>

definition ai_branch :: "error + jsval \<Rightarrow> error + jsval \<times> string" where
  "ai_branch aiEstimate =
     and_then aiEstimate (\<lambda>r. and_then (get_prop r ''minutes'') (\<lambda>m. Inr (m, ''ai'')))"

definition heuristic_branch :: "error + number \<Rightarrow> error + jsval \<times> string" where
  "heuristic_branch h = and_then h (\<lambda>m. Inr (Number m, ''heuristic''))"

text \<open>
  \<open>estimateSingle\<close> returns the estimated assignment, or raises, and leaves the estimator
  as \<open>configure\<close> set it.
\<close>

definition useAI :: "estimator \<Rightarrow> bool" where
  "useAI est =
     (aiProvider est = Some ''local'' \<or>
      (truthy (apiKey est) \<and>
       (aiProvider est = Some ''openai'' \<or> aiProvider est = Some ''anthropic'')))"

definition estimateSingle ::
  "platform \<Rightarrow> env \<Rightarrow> estimator \<Rightarrow> assignment \<Rightarrow> (error + assignment) \<times> estimator" where
  "estimateSingle pf ev est0 a =
     (case sync_get ev of
        Inl e \<Rightarrow> (Inl e, est0)
      | Inr st \<Rightarrow>
          (let est = configure st est0;
               outcome =
                 (if useAI est
                  then try_catch (ai_branch (getAIEstimate pf ev est a))
                         (\<lambda>err. heuristic_branch (getHeuristicEstimate a))
                  else heuristic_branch (getHeuristicEstimate a))
           in (case outcome of
                 Inl e \<Rightarrow> (Inl e, est)
               | Inr (minutes, method) \<Rightarrow> (Inr (with_estimate a minutes method (now ev)), est))))"

definition estimateSingle_js ::
  "platform \<Rightarrow> env \<Rightarrow> estimator \<Rightarrow> assignment \<Rightarrow> (error + assignment) \<times> estimator" where
  "estimateSingle_js pf ev est0 a =
     (case sync_get ev of
        Inl e \<Rightarrow> (Inl e, est0)
      | Inr st \<Rightarrow>
          (let est = configure_js st est0;
               outcome =
                 (if truthy (apiKey est)
                  then try_catch (ai_branch (getAIEstimate_js pf ev est a))
                         (\<lambda>err. heuristic_branch (getHeuristicEstimate_js a))
                  else heuristic_branch (getHeuristicEstimate_js a))
           in (case outcome of
                 Inl e \<Rightarrow> (Inl e, est)
               | Inr (minutes, method) \<Rightarrow> (Inr (with_estimate a minutes method (now ev)), est))))"

text \<open>
  The \<open>for ... of\<close> loop of \<open>estimateAll\<close>: the \<open>i\<close>-th call of \<open>estimateSingle\<close> meets the
  world \<open>envs i\<close>; \<open>acc\<close> is \<open>estimatedAssignments\<close>.
\<close>

fun estimateLoop ::
  "platform \<Rightarrow> (nat \<Rightarrow> env) \<Rightarrow> nat \<Rightarrow> estimator \<Rightarrow> assignment list \<Rightarrow> assignment list
     \<Rightarrow> (error + assignment list) \<times> estimator" where
  "estimateLoop pf envs i est acc [] = (Inr acc, est)"
| "estimateLoop pf envs i est acc (a # rest) =
     (case estimateSingle pf (envs i) est a of
        (Inl e, est') \<Rightarrow> (Inl e, est')
      | (Inr estimated, est') \<Rightarrow> estimateLoop pf envs (Suc i) est' (acc @ [estimated]) rest)"

text \<open>\<open>estimateAll\<close>: its own \<open>configure\<close> reads the settings of \<open>envs 0\<close>.\<close>

definition estimateAll ::
  "platform \<Rightarrow> (nat \<Rightarrow> env) \<Rightarrow> estimator \<Rightarrow> assignment list
     \<Rightarrow> (error + assignment list) \<times> estimator" where
  "estimateAll pf envs est0 assignments =
     (case sync_get (envs 0) of
        Inl e \<Rightarrow> (Inl e, est0)
      | Inr st \<Rightarrow> estimateLoop pf envs 1 (configure st est0) [] assignments)"

text \<open>The same loop and the same method in the JavaScript variant of the class.\<close>

fun estimateLoop_js ::
  "platform \<Rightarrow> (nat \<Rightarrow> env) \<Rightarrow> nat \<Rightarrow> estimator \<Rightarrow> assignment list \<Rightarrow> assignment list
     \<Rightarrow> (error + assignment list) \<times> estimator" where
  "estimateLoop_js pf envs i est acc [] = (Inr acc, est)"
| "estimateLoop_js pf envs i est acc (a # rest) =
     (case estimateSingle_js pf (envs i) est a of
        (Inl e, est') \<Rightarrow> (Inl e, est')
      | (Inr estimated, est') \<Rightarrow> estimateLoop_js pf envs (Suc i) est' (acc @ [estimated]) rest)"

definition estimateAll_js ::
  "platform \<Rightarrow> (nat \<Rightarrow> env) \<Rightarrow> estimator \<Rightarrow> assignment list
     \<Rightarrow> (error + assignment list) \<times> estimator" where
  "estimateAll_js pf envs est0 assignments =
     (case sync_get (envs 0) of
        Inl e \<Rightarrow> (Inl e, est0)
      | Inr st \<Rightarrow> estimateLoop_js pf envs 1 (configure_js st est0) [] assignments)"

section \<open>The source client\<close>

record canvasAPI =
  baseUrl :: "string option"
  apiToken :: "string option"

definition new_CanvasAPI :: canvasAPI where
  "new_CanvasAPI = \<lparr>baseUrl = None, apiToken = None\<rparr>"

text \<open>\<open>baseUrl.replace(/\/+$/, '')\<close> removes the slashes at the end.\<close>

definition strip_trailing_slashes :: "string \<Rightarrow> string" where
  "strip_trailing_slashes u = rev (dropWhile (\<lambda>c. c = CHR ''/'') (rev u))"

definition CanvasAPI_configure :: "string \<Rightarrow> string \<Rightarrow> canvasAPI" where
  "CanvasAPI_configure url token =
     (let b = strip_trailing_slashes url
      in \<lparr>baseUrl = Some (if \<not> str_includes b ''/api/v1'' then b @ ''/api/v1'' else b),
          apiToken = Some token\<rparr>)"

text \<open>
  \<open>request\<close> raises when the client is not configured; otherwise its result is what the
  upstream gives for the endpoint: the decoded body, or the error of a failed fetch or of
  a non-success status.
\<close>

definition request :: "canvasAPI \<Rightarrow> error + 'a \<Rightarrow> error + 'a" where
  "request api upstream =
     (if \<not> truthy (baseUrl api) \<or> \<not> truthy (apiToken api) then Inl NotConfigured
      else upstream)"

record course =
  course_id :: real
  course_name :: string

text \<open>An assignment as Canvas sends it is an object of unknown shape.\<close>

type_synonym canvas_assignment = "string \<rightharpoonup> jsval"

record canvas =
  courses_endpoint :: "error + course list"
  assignments_endpoint :: "real \<Rightarrow> error + canvas_assignment list"

definition getCourses :: "canvasAPI \<Rightarrow> canvas \<Rightarrow> error + course list" where
  "getCourses api cv = request api (courses_endpoint cv)"

definition getCourseAssignments ::
  "canvasAPI \<Rightarrow> canvas \<Rightarrow> real \<Rightarrow> error + canvas_assignment list" where
  "getCourseAssignments api cv cid = request api (assignments_endpoint cv cid)"

text \<open>\<open>{...a, courseName: course.name, courseId: course.id}\<close>\<close>

definition enrich :: "course \<Rightarrow> canvas_assignment \<Rightarrow> canvas_assignment" where
  "enrich c a = a(''courseName'' \<mapsto> Str (course_name c), ''courseId'' \<mapsto> Num (course_id c))"

text \<open>The \<open>for ... of\<close> loop over the courses, with its \<open>try\<close>/\<open>catch\<close>.\<close>

fun upcoming_loop ::
  "canvasAPI \<Rightarrow> canvas \<Rightarrow> canvas_assignment list \<Rightarrow> course list \<Rightarrow> canvas_assignment list" where
  "upcoming_loop api cv assignments [] = assignments"
| "upcoming_loop api cv assignments (c # cs) =
     upcoming_loop api cv
       (case getCourseAssignments api cv (course_id c) of
          Inr courseAssignments \<Rightarrow> assignments @ map (enrich c) courseAssignments
        | Inl e \<Rightarrow> assignments)
       cs"

text \<open>\<open>a[name]\<close> on an object: \<open>undefined\<close> when the field is missing.\<close>

definition field :: "(string \<rightharpoonup> jsval) \<Rightarrow> string \<Rightarrow> jsval" where
  "field a name = (case a name of Some v \<Rightarrow> v | None \<Rightarrow> Undefined)"

text \<open>
  The comparator \<open>new Date(a.due_at) - new Date(b.due_at)\<close>; \<open>None\<close> is NaN, the
  difference with an invalid date.
\<close>

definition due_cmp :: "platform \<Rightarrow> canvas_assignment \<Rightarrow> canvas_assignment \<Rightarrow> real option" where
  "due_cmp pf a b =
     (case (dateValue pf (field a ''due_at''), dateValue pf (field b ''due_at'')) of
        (Some x, Some y) \<Rightarrow> Some (x - y)
      | _ \<Rightarrow> None)"

text \<open>
  \<open>Array.prototype.sort\<close> with a comparator is a stable sort; a comparator value that is
  not positive (NaN included) leaves the pair in its order. With a comparator that orders
  the elements consistently every stable sort gives the same array, which this insertion
  sort computes. With an inconsistent comparator (a NaN among the differences) the
  language leaves the order to the engine, and the model fixes one.
\<close>

fun insert_by :: "('a \<Rightarrow> 'a \<Rightarrow> real option) \<Rightarrow> 'a \<Rightarrow> 'a list \<Rightarrow> 'a list" where
  "insert_by cmp x [] = [x]"
| "insert_by cmp x (y # ys) =
     (if (case cmp x y of Some d \<Rightarrow> 0 < d | None \<Rightarrow> False)
      then y # insert_by cmp x ys
      else x # y # ys)"

definition js_sort :: "('a \<Rightarrow> 'a \<Rightarrow> real option) \<Rightarrow> 'a list \<Rightarrow> 'a list" where
  "js_sort cmp xs = foldr (insert_by cmp) xs []"

definition getUpcomingAssignments ::
  "platform \<Rightarrow> canvasAPI \<Rightarrow> canvas \<Rightarrow> error + canvas_assignment list" where
  "getUpcomingAssignments pf api cv =
     (case getCourses api cv of
        Inl e \<Rightarrow> Inl e
      | Inr courses \<Rightarrow> Inr (js_sort (due_cmp pf) (upcoming_loop api cv [] courses)))"

text \<open>
  \<open>getTodoItems\<close>: the planner endpoint with its normalisation inside the \<open>try\<close>, the todo
  endpoint with its normalisation in the \<open>catch\<close>. Each endpoint is given by the
  normalised list it leads to, or by the error raised on the way.
\<close>

record todo_sources =
  planner_items :: "error + assignment list"
  todo_items :: "error + assignment list"

definition getTodoItems :: "canvasAPI \<Rightarrow> todo_sources \<Rightarrow> error + assignment list" where
  "getTodoItems api src =
     try_catch (request api (planner_items src)) (\<lambda>err. request api (todo_items src))"

section \<open>The background service worker\<close>

text \<open>
  The state the worker acts on: the two keys it keeps in \<open>chrome.storage.local\<close> and the
  notifications raised so far (each with the count in its message).
\<close>

record worker_state =
  cachedAssignments :: "assignment list option"
  lastUpdated :: "real option"
  notifications :: "nat list"

text \<open>What the world answers during one refresh pass.\<close>

record world =
  canvas_settings :: "error + string option \<times> string option"
  sources :: todo_sources
  estimation :: "nat \<Rightarrow> env"
  local_set :: "error option"
  clock :: real
  notification_settings :: "error + bool"
  clock_urgent :: real

definition checkForUrgentAssignments ::
  "platform \<Rightarrow> world \<Rightarrow> assignment list \<Rightarrow> worker_state \<Rightarrow> (error + unit) \<times> worker_state" where
  "checkForUrgentAssignments pf w assignments st =
     (case notification_settings w of
        Inl e \<Rightarrow> (Inl e, st)
      | Inr showNotifications \<Rightarrow>
          if \<not> showNotifications then (Inr (), st)
          else
            (let twentyFourHours = 24 * 60 * 60 * 1000;
                 urgent = filter (\<lambda>a. case dateValue pf (field (other a) ''dueDate'') of
                                          Some dueDate \<Rightarrow> dueDate - clock_urgent w < twentyFourHours
                                                           \<and> clock_urgent w < dueDate
                                        | None \<Rightarrow> False) assignments
             in if 0 < length urgent
                then (Inr (), st\<lparr>notifications := notifications st @ [length urgent]\<rparr>)
                else (Inr (), st)))"

text \<open>
  The body of the \<open>try\<close> block of \<open>refreshAssignmentsInBackground\<close>. The worker imports
  \<open>time-estimator.js\<close>, so its \<open>TimeEstimator\<close> is the JavaScript variant of the class.
\<close>

definition refresh_body ::
  "platform \<Rightarrow> world \<Rightarrow> worker_state \<Rightarrow> (error + unit) \<times> worker_state" where
  "refresh_body pf w st =
     (case canvas_settings w of
        Inl e \<Rightarrow> (Inl e, st)
      | Inr (canvasUrl, token) \<Rightarrow>
          if \<not> truthy canvasUrl \<or> \<not> truthy token then (Inr (), st)
          else
            (let api = CanvasAPI_configure (or_else canvasUrl []) (or_else token [])
             in case getTodoItems api (sources w) of
                  Inl e \<Rightarrow> (Inl e, st)
                | Inr rawAssignments \<Rightarrow>
                    (case fst (estimateAll_js pf (estimation w) new_TimeEstimator rawAssignments) of
                       Inl e \<Rightarrow> (Inl e, st)
                     | Inr assignments \<Rightarrow>
                         (case local_set w of
                            Some e \<Rightarrow> (Inl e, st)
                          | None \<Rightarrow>
                              checkForUrgentAssignments pf w assignments
                                (st\<lparr>cachedAssignments := Some assignments,
                                     lastUpdated := Some (clock w)\<rparr>)))))"

text \<open>\<open>try { ... } catch (error) { console.error(...) }\<close>: the error is logged and dropped.\<close>

definition refreshAssignmentsInBackground ::
  "platform \<Rightarrow> world \<Rightarrow> worker_state \<Rightarrow> (error + unit) \<times> worker_state" where
  "refreshAssignmentsInBackground pf w st =
     (case refresh_body pf w st of
        (Inl e, st') \<Rightarrow> (Inr (), st')
      | (Inr u, st') \<Rightarrow> (Inr u, st'))"

section \<open>Category resolution as the specification words it\<close>

text \<open>
  A keyword is mentioned in a title when the title, read without regard to case, has the
  keyword somewhere inside it.
\<close>

definition mentions :: "string \<Rightarrow> string \<Rightarrow> bool" where
  "mentions ttl kw = (\<exists>before after. toLowerCase ttl = before @ kw @ after)"

definition type_is :: "string \<Rightarrow> string \<Rightarrow> bool" where
  "type_is typ kw = (toLowerCase typ = kw)"

text \<open>The rules in priority order, each a category with its test on title and type.\<close>

definition priority_rules :: "(string \<times> (string \<Rightarrow> string \<Rightarrow> bool)) list" where
  "priority_rules =
     [(''quiz'', \<lambda>ttl typ. type_is typ ''quiz'' \<or> mentions ttl ''quiz''),
      (''discussion'', \<lambda>ttl typ. type_is typ ''discussion'' \<or> mentions ttl ''discussion''),
      (''essay'', \<lambda>ttl typ. mentions ttl ''essay'' \<or> mentions ttl ''paper''),
      (''project'', \<lambda>ttl typ. mentions ttl ''project'' \<or> mentions ttl ''presentation''),
      (''exam'', \<lambda>ttl typ. mentions ttl ''exam'' \<or> mentions ttl ''test''
                   \<or> mentions ttl ''midterm'' \<or> mentions ttl ''final''),
      (''reading'', \<lambda>ttl typ. mentions ttl ''reading'' \<or> mentions ttl ''read'')]"

text \<open>First match wins; without a match the category is the default.\<close>

definition first_match ::
  "(string \<times> (string \<Rightarrow> string \<Rightarrow> bool)) list \<Rightarrow> string \<Rightarrow> string \<Rightarrow> string" where
  "first_match rs ttl typ =
     (case find (\<lambda>r. snd r ttl typ) rs of
        Some r \<Rightarrow> fst r
      | None \<Rightarrow> ''assignment'')"

section \<open>Fallback of the estimation engine as the specification words it\<close>

text \<open>
  The result of a call is the heuristic one: the call does not raise, the object it
  returns has the method \<open>heuristic\<close> in its field \<open>estimationMethod\<close>, and its field
  \<open>estimatedMinutes\<close> holds the number \<open>h\<close> that the heuristic scorer returns.
\<close>

definition falls_back :: "(error + assignment) \<times> estimator \<Rightarrow> error + number \<Rightarrow> bool" where
  "falls_back res h =
     (\<exists>r m. fst res = Inr r \<and> h = Inr m
           \<and> other r ''estimationMethod'' = Some (Str ''heuristic'')
           \<and> other r ''estimatedMinutes'' = Some (Number m))"

text \<open>
  Every request ends in a network error, in a status outside 200 to 299, or in a body
  that is not JSON.
\<close>

definition fetch_fails :: "platform \<Rightarrow> env \<Rightarrow> bool" where
  "fetch_fails pf ev =
     (\<forall>req. case fetch ev req of
              NetworkFailure \<Rightarrow> True
            | Response status body \<Rightarrow> \<not> response_ok status \<or> JSON_parse pf body = None)"

text \<open>The provider is \<open>none\<close>, or it is a hosted one whose credential is missing or empty.\<close>

definition ineligible :: "settings \<Rightarrow> bool" where
  "ineligible st =
     (s_aiProvider st = Some ''none''
      \<or> (s_aiProvider st = Some ''openai'' \<and> \<not> truthy (s_openaiApiKey st))
      \<or> (s_aiProvider st = Some ''anthropic'' \<and> \<not> truthy (s_anthropicApiKey st)))"

text \<open>The three fields \<open>estimateSingle\<close> adds.\<close>

definition added_fields :: "string set" where
  "added_fields = {''estimatedMinutes'', ''estimationMethod'', ''estimatedAt''}"

section \<open>Aggregation and refresh as the specification words them\<close>

text \<open>
  The assignments of the courses whose fetch succeeds, each with its course, in course
  order; a course whose fetch fails gives none.
\<close>

definition fetched :: "canvas \<Rightarrow> course list \<Rightarrow> canvas_assignment list" where
  "fetched cv cs =
     concat (map (\<lambda>c. case assignments_endpoint cv (course_id c) of
                         Inr courseAssignments \<Rightarrow> map (enrich c) courseAssignments
                       | Inl e \<Rightarrow> []) cs)"

text \<open>Every assignment has a due date that \<open>Date\<close> can read (\<open>null\<close> reads as the epoch).\<close>

definition dated :: "platform \<Rightarrow> canvas_assignment list \<Rightarrow> bool" where
  "dated pf xs = list_all (\<lambda>a. dateValue pf (field a ''due_at'') \<noteq> None) xs"

text \<open>The due date as a number of milliseconds.\<close>

definition due_value :: "platform \<Rightarrow> canvas_assignment \<Rightarrow> real" where
  "due_value pf a = (case dateValue pf (field a ''due_at'') of Some t \<Rightarrow> t | None \<Rightarrow> 0)"

text \<open>
  A total fetch failure of a refresh pass: the settings cannot be read, a credential is
  missing, or both upstream endpoints fail.
\<close>

definition total_fetch_failure :: "world \<Rightarrow> bool" where
  "total_fetch_failure w =
     (case canvas_settings w of
        Inl e \<Rightarrow> True
      | Inr (canvasUrl, token) \<Rightarrow>
          \<not> truthy canvasUrl \<or> \<not> truthy token
          \<or> (isl (planner_items (sources w)) \<and> isl (todo_items (sources w))))"

section \<open>The parse cascade of the local backend as the specification words it\<close>

text \<open>A piece of text shaped like a JSON object with a \<open>minutes\<close> key.\<close>

definition object_shaped :: "string \<Rightarrow> bool" where
  \<open>object_shaped m = (\<exists>a b. m = ''{'' @ a @ ''"minutes"'' @ b @ ''}'')\<close>

definition contains_object :: "string \<Rightarrow> bool" where
  "contains_object s = (\<exists>pre m post. s = pre @ m @ post \<and> object_shaped m)"

text \<open>
  The text has a number followed, after optional white space, by the word \<open>minute\<close> in
  any case.
\<close>

definition says_minutes :: "string \<Rightarrow> bool" where
  "says_minutes s =
     (\<exists>pre ds sp word post. s = pre @ ds @ sp @ word @ post \<and> ds \<noteq> []
        \<and> list_all is_digit ds \<and> list_all is_space sp \<and> toLowerCase word = ''minute'')"

text \<open>The first stage gives nothing: no object-shaped piece, or one that is not JSON.\<close>

definition first_stage_fails :: "platform \<Rightarrow> string \<Rightarrow> bool" where
  "first_stage_fails pf content =
     (case regex_exec ollama_json_regex content of
        None \<Rightarrow> True
      | Some m \<Rightarrow> JSON_parse pf (whole_match m) = None)"

definition default_estimate :: jsval where
  "default_estimate =
     Obj [(''minutes'', Num 60), (''reasoning'', Str ''Could not parse LLM response'')]"

section \<open>The description snippet as the specification words it\<close>

text \<open>The text has no tag left: no \<open><\<close> with a \<open>>\<close> somewhere after it.\<close>

definition no_tags :: "string \<Rightarrow> bool" where
  "no_tags s = (\<not> (\<exists>u v w. s = u @ ''<'' @ v @ ''>'' @ w))"

text \<open>
  White space is collapsed: none at either end, every white-space character is a blank,
  and no two of them are adjacent.
\<close>

definition collapsed :: "string \<Rightarrow> bool" where
  "collapsed s =
     ((s \<noteq> [] \<longrightarrow> \<not> is_space (hd s) \<and> \<not> is_space (last s))
      \<and> (\<forall>c \<in> set s. is_space c \<longrightarrow> c = CHR '' '')
      \<and> (\<forall>u c d v. s = u @ [c, d] @ v \<longrightarrow> \<not> (is_space c \<and> is_space d)))"

text \<open>Recursive forms of the two properties, and the input left after a tag.\<close>

fun tagfree :: "string \<Rightarrow> bool" where
  "tagfree [] = True"
| "tagfree (c # cs) = ((c = CHR ''<'' \<longrightarrow> CHR ''>'' \<notin> set cs) \<and> tagfree cs)"

fun blanks_ok :: "string \<Rightarrow> bool" where
  "blanks_ok [] = True"
| "blanks_ok (c # cs) =
     ((is_space c \<longrightarrow> c = CHR '' '' \<and> (cs = [] \<or> \<not> is_space (hd cs))) \<and> blanks_ok cs)"

definition after_tag :: "string \<Rightarrow> string" where
  "after_tag cs = tl (dropWhile (\<lambda>x. x \<noteq> CHR ''>'') cs)"

section \<open>Concrete inputs\<close>

text \<open>
  A platform whose \<open>JSON.parse\<close> knows two documents and whose \<open>Date\<close> knows three
  timestamps, settings for each kind of provider, and a few assignments.
\<close>

definition example_platform :: platform where
  \<open>example_platform =
     \<lparr>JSON_parse = (\<lambda>s. if s = ''{"minutes": 45, "reasoning": "ok"}''
                          then Some (Obj [(''minutes'', Num 45), (''reasoning'', Str ''ok'')])
                          else if s = ''{"response": "about 90 minutes"}''
                          then Some (Obj [(''response'', Str ''about 90 minutes'')])
                          else None),
      numToString = (\<lambda>r. if r = 0 then ''0'' else if r = 10 then ''10'' else ''20''),
      dateValue = (\<lambda>v. case v of
                          Null \<Rightarrow> Some 0
                        | Num r \<Rightarrow> Some r
                        | Str s \<Rightarrow> (if s = ''2024-05-01T00:00:00Z'' then Some 1714521600000
                                     else if s = ''2024-05-02T00:00:00Z'' then Some 1714608000000
                                     else if s = ''2024-05-03T00:00:00Z'' then Some 1714694400000
                                     else None)
                        | _ \<Rightarrow> None)\<rparr>\<close>

definition settings_openai :: settings where
  "settings_openai =
     \<lparr>s_aiProvider = Some ''openai'', s_openaiApiKey = Some ''sk-test'',
      s_anthropicApiKey = None, s_localLlmUrl = None, s_localLlmModel = None,
      s_estimationModel = None\<rparr>"

definition settings_none :: settings where
  "settings_none =
     \<lparr>s_aiProvider = Some ''none'', s_openaiApiKey = None,
      s_anthropicApiKey = None, s_localLlmUrl = None, s_localLlmModel = None,
      s_estimationModel = None\<rparr>"

definition settings_local :: settings where
  "settings_local =
     \<lparr>s_aiProvider = Some ''local'', s_openaiApiKey = None,
      s_anthropicApiKey = None, s_localLlmUrl = None, s_localLlmModel = None,
      s_estimationModel = None\<rparr>"

text \<open>A world in which the network is down, at time 1000.\<close>

definition env_offline :: "settings \<Rightarrow> env" where
  "env_offline st = \<lparr>sync_get = Inr st, fetch = (\<lambda>req. NetworkFailure), now = 1000\<rparr>"

text \<open>A world in which every request is answered by a local model, at time 1000.\<close>

definition env_local :: env where
  \<open>env_local =
     \<lparr>sync_get = Inr settings_local,
      fetch = (\<lambda>req. Response 200 ''{"response": "about 90 minutes"}''),
      now = 1000\<rparr>\<close>

definition quiz10 :: assignment where
  "quiz10 =
     \<lparr>title = Some ''Weekly Quiz'', type = Some ''quiz'', courseName = Some ''Algebra'',
      pointsPossible = Some (Fin 10), submissionTypes = Some [''online_quiz''],
      description = None, other = [''id'' \<mapsto> Num 7]\<rparr>"

definition essay20 :: assignment where
  "essay20 =
     \<lparr>title = Some ''Final Essay'', type = Some ''assignment'', courseName = Some ''History'',
      pointsPossible = Some (Fin 20), submissionTypes = Some [''online_upload''],
      description = Some ''<p>Write  about <b>Rome</b></p>'', other = Map.empty\<rparr>"

definition homework0 :: assignment where
  "homework0 =
     \<lparr>title = Some ''Homework'', type = Some ''assignment'', courseName = Some ''Algebra'',
      pointsPossible = Some (Fin 0), submissionTypes = Some [],
      description = None, other = Map.empty\<rparr>"

text \<open>A worker state with a cache, and worlds in which a refresh pass cannot fetch.\<close>

definition state_cached :: worker_state where
  "state_cached =
     \<lparr>cachedAssignments = Some [quiz10], lastUpdated = Some 5, notifications = []\<rparr>"

definition world_with ::
  "error + string option \<times> string option \<Rightarrow> todo_sources \<Rightarrow> world" where
  "world_with cs src =
     \<lparr>canvas_settings = cs, sources = src,
      estimation = (\<lambda>i. env_offline settings_none), local_set = None, clock = 2000,
      notification_settings = Inr True, clock_urgent = 2000\<rparr>"

definition sources_down :: todo_sources where
  "sources_down = \<lparr>planner_items = Inl FetchFailed, todo_items = Inl (ApiError ''Canvas'' 500)\<rparr>"

definition sources_up :: todo_sources where
  "sources_up = \<lparr>planner_items = Inl FetchFailed, todo_items = Inr [essay20]\<rparr>"

text \<open>
  Three courses: the fetch of the second fails, the first has two assignments with due
  dates out of order, the third has one assignment due between them.
\<close>

definition course1 :: course where
  "course1 = \<lparr>course_id = 1, course_name = ''Algebra''\<rparr>"

definition course2 :: course where
  "course2 = \<lparr>course_id = 2, course_name = ''History''\<rparr>"

definition course3 :: course where
  "course3 = \<lparr>course_id = 3, course_name = ''Physics''\<rparr>"

definition due_on :: "string \<Rightarrow> string \<Rightarrow> canvas_assignment" where
  "due_on name day = [''name'' \<mapsto> Str name, ''due_at'' \<mapsto> Str day]"

definition canvas3 :: canvas where
  "canvas3 =
     \<lparr>courses_endpoint = Inr [course1, course2, course3],
      assignments_endpoint = (\<lambda>cid.
        if cid = 1 then Inr [due_on ''late'' ''2024-05-03T00:00:00Z'',
                             due_on ''early'' ''2024-05-01T00:00:00Z'']
        else if cid = 3 then Inr [due_on ''middle'' ''2024-05-02T00:00:00Z'']
        else Inl (ApiError ''Canvas'' 403))\<rparr>"

definition api_ready :: canvasAPI where
  "api_ready = CanvasAPI_configure ''https://canvas.test/'' ''token''"

section \<open>Properties of the heuristic scorer\<close>

lemma rulesFor_known:
  "rulesFor (categorizeAssignment a) = map_of defaultEstimates (categorizeAssignment a)
   \<and> (\<exists>r. rulesFor (categorizeAssignment a) = Some r \<and> 0 \<le> base r \<and> 0 < perPoint r)"
  by (simp add: rulesFor_def categorizeAssignment_def defaultEstimates_def Let_def)

lemma mentions_includes: "mentions ttl kw = str_includes (toLowerCase ttl) kw"
  by (simp add: mentions_def str_includes_def sublist_def)

text \<open>The clamp, and the two operations before it, on a number that is not NaN.\<close>

lemma clamp_in_range:
  "n \<noteq> NaN \<Longrightarrow> \<exists>m. Math_min (Math_max n (Fin 15)) (Fin 480) = Fin m \<and> 15 \<le> m \<and> m \<le> 480"
  by (cases n) auto

lemma clamp_NaN: "Math_min (Math_max NaN (Fin 15)) (Fin 480) = NaN"
  by simp

lemma num_add_Fin_NaN: "num_add n (Fin c) = NaN \<longleftrightarrow> n = NaN"
  by (cases n) auto

lemma Fin_num_add_NaN: "num_add (Fin c) n = NaN \<longleftrightarrow> n = NaN"
  by (cases n) auto

lemma num_mul_Fin_NaN: "0 < c \<Longrightarrow> num_mul p (Fin c) = NaN \<longleftrightarrow> p = NaN"
  by (cases p) auto

lemma heuristic_returns: "\<exists>m. getHeuristicEstimate a = Inr m"
proof -
  obtain r where r: "rulesFor (categorizeAssignment a) = Some r"
    using rulesFor_known by blast
  show ?thesis
    by (simp add: getHeuristicEstimate_def r Let_def)
qed

lemma heuristic_js_returns: "\<exists>m. getHeuristicEstimate_js a = Inr m"
proof -
  obtain r where r: "rulesFor (categorizeAssignment a) = Some r"
    using rulesFor_known by blast
  show ?thesis
    by (simp add: getHeuristicEstimate_js_def r Let_def)
qed


lemma heuristic_NaN:
  assumes "pointsPossible a = Some NaN"
  shows "getHeuristicEstimate a = Inr NaN"
proof -
  obtain r where r: "rulesFor (categorizeAssignment a) = Some r"
    using rulesFor_known by blast
  show ?thesis
    by (simp add: getHeuristicEstimate_def r assms Let_def split: option.splits)
qed

text \<open>The JavaScript variant skips a NaN as it skips a zero, so its result is always in range.\<close>

lemma heuristic_js_Inr:
  "\<exists>m. getHeuristicEstimate_js a = Inr (Fin m) \<and> 15 \<le> m \<and> m \<le> 480"
proof -
  obtain r where r: "rulesFor (categorizeAssignment a) = Some r" "0 < perPoint r"
    using rulesFor_known by blast
  define m1 where "m1 = (case pointsPossible a of
                           Some p \<Rightarrow> if truthy_number p
                                      then num_add (Fin (base r)) (num_mul p (Fin (perPoint r)))
                                      else Fin (base r)
                         | None \<Rightarrow> Fin (base r))"
  define m2 where "m2 = (case submissionTypes a of
                       Some ts \<Rightarrow>
                         (let u = (if ''online_upload'' \<in> set ts then num_add m1 (Fin 15) else m1)
                          in if ''media_recording'' \<in> set ts then num_add u (Fin 30) else u)
                     | None \<Rightarrow> m1)"
  have g: "getHeuristicEstimate_js a = Inr (Math_min (Math_max m2 (Fin 15)) (Fin 480))"
    by (simp add: getHeuristicEstimate_js_def r(1) Let_def m1_def m2_def split: option.splits)
  have "m1 \<noteq> NaN"
    using r(2)
    by (auto simp add: m1_def Fin_num_add_NaN num_mul_Fin_NaN truthy_number_def
        split: option.splits)
  then have "m2 \<noteq> NaN"
    by (simp add: m2_def Let_def num_add_Fin_NaN split: option.splits)
  then show ?thesis
    using clamp_in_range [of m2] g by simp
qed





text \<open>
  C3. The category is the one of the first rule that matches, in the order quiz,
  discussion, essay or paper, project or presentation, exam or test or midterm or final,
  reading or read, and \<open>assignment\<close> when none matches; a rule matches when its keyword
  occurs in the title without regard to case, and the first two also when the type field
  is the keyword. A title \<open>Quiz Discussion\<close> gives \<open>quiz\<close> and not \<open>discussion\<close>,
  whatever the other fields.
\<close>

theorem categorizeAssignment_first_match:
  "categorizeAssignment a =
     first_match priority_rules (or_else (title a) []) (or_else (type a) [])
   \<and> (title a = Some ''Quiz Discussion'' \<longrightarrow>
        categorizeAssignment a = ''quiz'' \<and> categorizeAssignment a \<noteq> ''discussion'')"
proof
  show "categorizeAssignment a =
     first_match priority_rules (or_else (title a) []) (or_else (type a) [])"
    by (simp add: categorizeAssignment_def first_match_def priority_rules_def
        mentions_includes type_is_def Let_def)
  show "title a = Some ''Quiz Discussion'' \<longrightarrow>
        categorizeAssignment a = ''quiz'' \<and> categorizeAssignment a \<noteq> ''discussion''"
    by (simp add: categorizeAssignment_def Let_def or_else_def toLowerCase_def toLowerChar_def
        upperLetters_def lowerLetters_def str_includes_def sublist_code)
qed

theorem categorizeAssignment_first_match_witness:
  "categorizeAssignment
     \<lparr>title = Some ''Quiz Discussion'', type = Some ''discussion'', courseName = None,
      pointsPossible = None, submissionTypes = None, description = None,
      other = Map.empty\<rparr> = ''quiz''"
  using categorizeAssignment_first_match
    [of "\<lparr>title = Some ''Quiz Discussion'', type = Some ''discussion'', courseName = None,
      pointsPossible = None, submissionTypes = None, description = None,
      other = Map.empty\<rparr>", THEN conjunct2]
  by simp

text \<open>
  C10. \<open>categorizeAssignment\<close> returns one of seven strings, each a key of the
  \<open>defaultEstimates\<close> table, so the lookup in \<open>getHeuristicEstimate\<close> finds its entry and
  the fallback to the \<open>default\<close> entry is never taken.
\<close>

theorem categorizeAssignment_in_table:
  "categorizeAssignment a \<in>
     set [''quiz'', ''discussion'', ''essay'', ''project'', ''exam'', ''reading'', ''assignment'']
   \<and> (\<exists>r. map_of defaultEstimates (categorizeAssignment a) = Some r
          \<and> rulesFor (categorizeAssignment a) = Some r)
   \<and> list_all (\<lambda>k. map_of defaultEstimates k \<noteq> None)
        [''quiz'', ''discussion'', ''essay'', ''project'', ''exam'', ''reading'', ''assignment'']"
  by (simp add: rulesFor_def categorizeAssignment_def defaultEstimates_def Let_def)

section \<open>Properties of the regular expressions\<close>

lemma match_One:
  "match_here (One p # r) s = Some x \<longleftrightarrow> (\<exists>c cs. s = c # cs \<and> p c \<and> match_here r cs = Some x)"
  by (cases s) auto

lemma match_lit:
  "match_here (lit k @ r) s = Some x \<longleftrightarrow> (\<exists>t. s = k @ t \<and> match_here r t = Some x)"
proof (induction k arbitrary: s)
  case Nil
  then show ?case by (simp add: lit_def)
next
  case (Cons a k)
  have "match_here (lit (a # k) @ r) s = match_here (One (\<lambda>c. c = a) # (lit k @ r)) s"
    by (simp add: lit_def)
  then show ?case
    using Cons.IH by (auto simp add: match_One)
qed

lemma match_lit_complete:
  "match_here r t \<noteq> None \<Longrightarrow> match_here (lit k @ r) (k @ t) \<noteq> None"
  using match_lit [of k r "k @ t"] by auto

lemma match_Mark:
  "match_here (Mark # r) s = Some (ms, e) \<longleftrightarrow>
     (\<exists>ms'. match_here r s = Some (ms', e) \<and> ms = s # ms')"
  by (auto split: option.splits)

lemma match_Star_sound:
  "match_here (Star p # r) s = Some x \<Longrightarrow>
     \<exists>w t. s = w @ t \<and> (\<forall>c \<in> set w. p c) \<and> match_here r t = Some x"
proof (induction s)
  case Nil
  then show ?case by auto
next
  case (Cons c cs)
  show ?case
  proof (cases "p c \<and> match_here (Star p # r) cs \<noteq> None")
    case True
    then have "match_here (Star p # r) cs = Some x"
      using Cons.prems by auto
    then obtain w t where "cs = w @ t" "\<forall>c \<in> set w. p c" "match_here r t = Some x"
      using Cons.IH by blast
    then show ?thesis
      using True by (intro exI [of _ "c # w"] exI [of _ t]) simp
  next
    case False
    then have "match_here r (c # cs) = Some x"
      using Cons.prems by (cases "match_here (Star p # r) cs") (auto split: if_splits)
    then show ?thesis
      by (intro exI [of _ "[]"] exI [of _ "c # cs"]) simp
  qed
qed

lemma match_Star_complete:
  "(\<forall>c \<in> set w. p c) \<Longrightarrow> match_here r t \<noteq> None \<Longrightarrow> match_here (Star p # r) (w @ t) \<noteq> None"
proof (induction w)
  case Nil
  then show ?case by (cases t) (auto split: option.splits)
next
  case (Cons a w)
  then show ?case by (auto split: option.splits)
qed

lemma match_Opt_sound:
  "match_here (Opt p # r) s = Some x \<Longrightarrow>
     (\<exists>c cs. s = c # cs \<and> p c \<and> match_here r cs = Some x) \<or> match_here r s = Some x"
  by (cases s) (auto split: if_splits option.splits)

lemma ollama_regex_unfold:
  \<open>ollama_json_regex =
     lit ''{'' @ (Star (\<lambda>c. True) # (lit ''"minutes"'' @ (Star (\<lambda>c. True) # (lit ''}'' @ []))))\<close>
  by (simp add: ollama_json_regex_def)

lemma ollama_sound:
  assumes "match_here ollama_json_regex s = Some (ms, e)"
  shows "\<exists>m. s = m @ e \<and> object_shaped m"
proof -
  from assms obtain t1 where t1: \<open>s = ''{'' @ t1\<close>
    \<open>match_here (Star (\<lambda>c. True) # (lit ''"minutes"'' @ (Star (\<lambda>c. True) # (lit ''}'' @ [])))) t1
       = Some (ms, e)\<close>
    unfolding ollama_regex_unfold match_lit by blast
  from match_Star_sound [OF t1(2)] obtain a t2 where t2: "t1 = a @ t2"
    \<open>match_here (lit ''"minutes"'' @ (Star (\<lambda>c. True) # (lit ''}'' @ []))) t2 = Some (ms, e)\<close>
    by blast
  from t2(2) obtain t3 where t3: \<open>t2 = ''"minutes"'' @ t3\<close>
    \<open>match_here (Star (\<lambda>c. True) # (lit ''}'' @ [])) t3 = Some (ms, e)\<close>
    unfolding match_lit by blast
  from match_Star_sound [OF t3(2)] obtain b t4 where t4: "t3 = b @ t4"
    \<open>match_here (lit ''}'' @ []) t4 = Some (ms, e)\<close>
    by blast
  from t4(2) have t5: \<open>t4 = ''}'' @ e\<close>
    unfolding match_lit by auto
  have \<open>s = (''{'' @ a @ ''"minutes"'' @ b @ ''}'') @ e\<close>
    using t1(1) t2(1) t3(1) t4(1) t5 by simp
  then show ?thesis
    unfolding object_shaped_def by blast
qed

lemma ollama_complete:
  assumes "object_shaped m"
  shows "match_here ollama_json_regex (m @ z) \<noteq> None"
proof -
  from assms obtain a b where m: \<open>m = ''{'' @ a @ ''"minutes"'' @ b @ ''}''\<close>
    unfolding object_shaped_def by blast
  have 1: \<open>match_here (lit ''}'' @ []) (''}'' @ z) \<noteq> None\<close>
    by (rule match_lit_complete) simp
  have 2: \<open>match_here (Star (\<lambda>c. True) # (lit ''}'' @ [])) (b @ ''}'' @ z) \<noteq> None\<close>
    by (rule match_Star_complete [OF _ 1]) simp
  have 3: \<open>match_here (lit ''"minutes"'' @ (Star (\<lambda>c. True) # (lit ''}'' @ [])))
             (''"minutes"'' @ b @ ''}'' @ z) \<noteq> None\<close>
    by (rule match_lit_complete [OF 2])
  have 4: \<open>match_here (Star (\<lambda>c. True) # (lit ''"minutes"'' @ (Star (\<lambda>c. True) # (lit ''}'' @ []))))
             (a @ ''"minutes"'' @ b @ ''}'' @ z) \<noteq> None\<close>
    by (rule match_Star_complete [OF _ 3]) simp
  have \<open>match_here ollama_json_regex (''{'' @ a @ ''"minutes"'' @ b @ ''}'' @ z) \<noteq> None\<close>
    unfolding ollama_regex_unfold by (rule match_lit_complete [OF 4])
  then show ?thesis
    using m by simp
qed


lemma tail_greedy:
  \<open>match_here (Star (\<lambda>c. True) # (lit ''}'' @ [])) t = Some (ms, e) \<Longrightarrow> CHR ''}'' \<notin> set e\<close>
proof (induction t)
  case Nil
  then show ?case by (simp add: lit_def)
next
  case (Cons c cs)
  show ?case
  proof (cases \<open>match_here (Star (\<lambda>c. True) # (lit ''}'' @ [])) cs\<close>)
    case (Some x)
    then show ?thesis using Cons by simp
  next
    case None
    then have e: \<open>c = CHR ''}''\<close> "e = cs"
      using Cons.prems by (auto simp add: lit_def split: if_splits)
    have \<open>CHR ''}'' \<notin> set cs\<close>
    proof
      assume \<open>CHR ''}'' \<in> set cs\<close>
      then obtain u v where uv: \<open>cs = u @ ''}'' @ v\<close>
        by (auto dest: split_list)
      have \<open>match_here (lit ''}'' @ []) (''}'' @ v) \<noteq> None\<close>
        by (rule match_lit_complete) simp
      from match_Star_complete [OF _ this, of u "\<lambda>c. True"] show False
        using None uv by simp
    qed
    then show ?thesis using e by simp
  qed
qed

lemma regex_exec_Some:
  "regex_exec r s = Some (st, ms, e) \<Longrightarrow>
     \<exists>pre. s = pre @ st \<and> match_here r st = Some (ms, e)
       \<and> (\<forall>u v. pre = u @ v \<and> v \<noteq> [] \<longrightarrow> match_here r (v @ st) = None)"
proof (induction s)
  case Nil
  then show ?case by (auto split: option.splits)
next
  case (Cons c cs)
  show ?case
  proof (cases "match_here r (c # cs)")
    case (Some x)
    then show ?thesis using Cons.prems by auto
  next
    case None
    then have "regex_exec r cs = Some (st, ms, e)"
      using Cons.prems by simp
    then obtain pre where pre: "cs = pre @ st" "match_here r st = Some (ms, e)"
      "\<forall>u v. pre = u @ v \<and> v \<noteq> [] \<longrightarrow> match_here r (v @ st) = None"
      using Cons.IH by blast
    have "\<forall>u v. c # pre = u @ v \<and> v \<noteq> [] \<longrightarrow> match_here r (v @ st) = None"
    proof (intro allI impI)
      fix u v assume uv: "c # pre = u @ v \<and> v \<noteq> []"
      show "match_here r (v @ st) = None"
      proof (cases u)
        case Nil
        then show ?thesis using uv None pre(1) by auto
      next
        case (Cons a u')
        then show ?thesis using uv pre(3) by auto
      qed
    qed
    then show ?thesis
      using pre(1,2) by (intro exI [of _ "c # pre"]) simp
  qed
qed

lemma regex_exec_None:
  "regex_exec r s = None \<Longrightarrow> s = u @ v \<Longrightarrow> match_here r v = None"
proof (induction s arbitrary: u)
  case Nil
  then show ?case by (auto split: option.splits)
next
  case (Cons c cs)
  then show ?case
    by (cases u) (auto split: option.splits)
qed

lemma ollama_sound_end:
  assumes "match_here ollama_json_regex s = Some (ms, e)"
  shows \<open>CHR ''}'' \<notin> set e\<close>
proof -
  from assms obtain t1 where t1:
    \<open>match_here (Star (\<lambda>c. True) # (lit ''"minutes"'' @ (Star (\<lambda>c. True) # (lit ''}'' @ [])))) t1
       = Some (ms, e)\<close>
    unfolding ollama_regex_unfold match_lit by blast
  from match_Star_sound [OF t1] obtain t2 where t2:
    \<open>match_here (lit ''"minutes"'' @ (Star (\<lambda>c. True) # (lit ''}'' @ []))) t2 = Some (ms, e)\<close>
    by blast
  from t2 obtain t3 where
    \<open>match_here (Star (\<lambda>c. True) # (lit ''}'' @ [])) t3 = Some (ms, e)\<close>
    unfolding match_lit by blast
  then show ?thesis by (rule tail_greedy)
qed

lemma object_shaped_extend:
  \<open>object_shaped m \<Longrightarrow> object_shaped (''{'' @ v @ m)\<close>
proof -
  assume "object_shaped m"
  then obtain a b where \<open>m = ''{'' @ a @ ''"minutes"'' @ b @ ''}''\<close>
    unfolding object_shaped_def by blast
  then have \<open>''{'' @ v @ m = ''{'' @ (v @ ''{'' @ a) @ ''"minutes"'' @ b @ ''}''\<close>
    by simp
  then show ?thesis
    unfolding object_shaped_def by blast
qed

lemma ollama_span:
  assumes "regex_exec ollama_json_regex s = Some m"
  shows \<open>\<exists>pre post. s = pre @ whole_match m @ post \<and> object_shaped (whole_match m)
           \<and> CHR ''{'' \<notin> set pre \<and> CHR ''}'' \<notin> set post\<close>
proof -
  obtain st ms e where m: "m = (st, ms, e)"
    by (cases m)
  from regex_exec_Some [OF assms [unfolded m]] obtain pre where pre:
    "s = pre @ st" "match_here ollama_json_regex st = Some (ms, e)"
    "\<forall>u v. pre = u @ v \<and> v \<noteq> [] \<longrightarrow> match_here ollama_json_regex (v @ st) = None"
    by blast
  from ollama_sound [OF pre(2)] obtain w where w: "st = w @ e" "object_shaped w"
    by blast
  have wm: "whole_match m = w"
    using w(1) by (simp add: m whole_match_def between_def)
  have \<open>CHR ''{'' \<notin> set pre\<close>
  proof
    assume \<open>CHR ''{'' \<in> set pre\<close>
    then obtain u v where uv: \<open>pre = u @ ''{'' @ v\<close>
      by (auto dest: split_list)
    then have \<open>match_here ollama_json_regex ((''{'' @ v) @ st) = None\<close>
      using pre(3) [rule_format, of u \<open>''{'' @ v\<close>] by simp
    moreover have \<open>match_here ollama_json_regex ((''{'' @ v @ w) @ e) \<noteq> None\<close>
      by (rule ollama_complete [OF object_shaped_extend [OF w(2)]])
    ultimately show False
      using w(1) by simp
  qed
  then show ?thesis
    using pre(1) w wm ollama_sound_end [OF pre(2)]
    by (intro exI [of _ pre] exI [of _ e]) simp
qed

lemma ollama_none:
  assumes "regex_exec ollama_json_regex s = None"
  shows "\<not> (\<exists>pre m post. s = pre @ m @ post \<and> object_shaped m)"
proof
  assume "\<exists>pre m post. s = pre @ m @ post \<and> object_shaped m"
  then obtain pre m post where "s = pre @ (m @ post)" "object_shaped m"
    by auto
  then show False
    using regex_exec_None [OF assms, of pre "m @ post"] ollama_complete [of m post]
    by simp
qed


lemma match_Opt_complete:
  "match_here r t \<noteq> None \<Longrightarrow> match_here (Opt p # r) t \<noteq> None"
  by (cases t) (auto split: option.splits)

lemma match_word:
  "match_here (ci a # r) s = Some x \<longleftrightarrow>
     (\<exists>c cs. s = c # cs \<and> toLowerChar c = a \<and> match_here r cs = Some x)"
  unfolding ci_def by (rule match_One)

lemma minutes_word_sound:
  assumes "match_here [ci CHR ''m'', ci CHR ''i'', ci CHR ''n'', ci CHR ''u'', ci CHR ''t'',
             ci CHR ''e'', Opt (\<lambda>c. toLowerChar c = CHR ''s'')] s = Some (ms, e)"
  shows "\<exists>word rest. s = word @ rest \<and> toLowerCase word = ''minute'' \<and> suffix e rest \<and> ms = []"
proof -
  from assms obtain c1 c2 c3 c4 c5 c6 rest where w:
    "s = c1 # c2 # c3 # c4 # c5 # c6 # rest"
    "toLowerChar c1 = CHR ''m''" "toLowerChar c2 = CHR ''i''" "toLowerChar c3 = CHR ''n''"
    "toLowerChar c4 = CHR ''u''" "toLowerChar c5 = CHR ''t''" "toLowerChar c6 = CHR ''e''"
    "match_here [Opt (\<lambda>c. toLowerChar c = CHR ''s'')] rest = Some (ms, e)"
    unfolding match_word by blast
  from match_Opt_sound [OF w(8)] have "suffix e rest \<and> ms = []"
    by (auto simp add: suffix_def)
  then show ?thesis
    using w by (intro exI [of _ "[c1, c2, c3, c4, c5, c6]"] exI [of _ rest])
      (simp add: toLowerCase_def)
qed

lemma minutes_sound:
  assumes "match_here minutes_regex s = Some (ms, e)"
  shows "\<exists>ds sp word rest. s = ds @ sp @ word @ rest \<and> ds \<noteq> [] \<and> list_all is_digit ds
           \<and> list_all is_space sp \<and> toLowerCase word = ''minute'' \<and> suffix e rest
           \<and> ms = [s, sp @ word @ rest]"
proof -
  from assms obtain ms1 where 1:
    "match_here [One is_digit, Star is_digit, Mark, Star is_space,
       ci CHR ''m'', ci CHR ''i'', ci CHR ''n'', ci CHR ''u'', ci CHR ''t'', ci CHR ''e'',
       Opt (\<lambda>c. toLowerChar c = CHR ''s'')] s = Some (ms1, e)" "ms = s # ms1"
    unfolding minutes_regex_def match_Mark by blast
  from 1(1) obtain d t1 where 2: "s = d # t1" "is_digit d"
    "match_here [Star is_digit, Mark, Star is_space,
       ci CHR ''m'', ci CHR ''i'', ci CHR ''n'', ci CHR ''u'', ci CHR ''t'', ci CHR ''e'',
       Opt (\<lambda>c. toLowerChar c = CHR ''s'')] t1 = Some (ms1, e)"
    unfolding match_One by blast
  from match_Star_sound [OF 2(3)] obtain ds t2 where 3: "t1 = ds @ t2" "\<forall>c \<in> set ds. is_digit c"
    "match_here [Mark, Star is_space,
       ci CHR ''m'', ci CHR ''i'', ci CHR ''n'', ci CHR ''u'', ci CHR ''t'', ci CHR ''e'',
       Opt (\<lambda>c. toLowerChar c = CHR ''s'')] t2 = Some (ms1, e)"
    by blast
  from 3(3) obtain ms2 where 4:
    "match_here [Star is_space,
       ci CHR ''m'', ci CHR ''i'', ci CHR ''n'', ci CHR ''u'', ci CHR ''t'', ci CHR ''e'',
       Opt (\<lambda>c. toLowerChar c = CHR ''s'')] t2 = Some (ms2, e)" "ms1 = t2 # ms2"
    unfolding match_Mark by blast
  from match_Star_sound [OF 4(1)] obtain sp t3 where 5: "t2 = sp @ t3" "\<forall>c \<in> set sp. is_space c"
    "match_here [ci CHR ''m'', ci CHR ''i'', ci CHR ''n'', ci CHR ''u'', ci CHR ''t'', ci CHR ''e'',
       Opt (\<lambda>c. toLowerChar c = CHR ''s'')] t3 = Some (ms2, e)"
    by blast
  from minutes_word_sound [OF 5(3)] obtain word rest where 6:
    "t3 = word @ rest" "toLowerCase word = ''minute''" "suffix e rest" "ms2 = []"
    by blast
  show ?thesis
    using 1(2) 2(1,2) 3(1,2) 4(2) 5(1,2) 6
    by (intro exI [of _ "d # ds"] exI [of _ sp] exI [of _ word] exI [of _ rest])
      (simp add: list_all_iff)
qed

lemma minutes_complete:
  assumes "ds \<noteq> []" "list_all is_digit ds" "list_all is_space sp" "toLowerCase word = ''minute''"
  shows "match_here minutes_regex (ds @ sp @ word @ post) \<noteq> None"
proof -
  obtain d ds' where d: "ds = d # ds'"
    using assms(1) by (cases ds) auto
  obtain c1 c2 c3 c4 c5 c6 where word: "word = [c1, c2, c3, c4, c5, c6]"
    "toLowerChar c1 = CHR ''m''" "toLowerChar c2 = CHR ''i''" "toLowerChar c3 = CHR ''n''"
    "toLowerChar c4 = CHR ''u''" "toLowerChar c5 = CHR ''t''" "toLowerChar c6 = CHR ''e''"
    using assms(4) by (auto simp add: toLowerCase_def)
  have 0: "match_here [] post \<noteq> None"
    by simp
  have 1: "match_here [ci CHR ''m'', ci CHR ''i'', ci CHR ''n'', ci CHR ''u'', ci CHR ''t'',
             ci CHR ''e'', Opt (\<lambda>c. toLowerChar c = CHR ''s'')] (word @ post) \<noteq> None"
    using match_Opt_complete [OF 0, of "\<lambda>c. toLowerChar c = CHR ''s''"] word
    by (simp add: ci_def)
  have 2: "match_here [Star is_space, ci CHR ''m'', ci CHR ''i'', ci CHR ''n'', ci CHR ''u'',
             ci CHR ''t'', ci CHR ''e'', Opt (\<lambda>c. toLowerChar c = CHR ''s'')]
             (sp @ word @ post) \<noteq> None"
    using assms(3) by (intro match_Star_complete [OF _ 1]) (simp add: list_all_iff)
  have 3: "match_here [Mark, Star is_space, ci CHR ''m'', ci CHR ''i'', ci CHR ''n'', ci CHR ''u'',
             ci CHR ''t'', ci CHR ''e'', Opt (\<lambda>c. toLowerChar c = CHR ''s'')]
             (sp @ word @ post) \<noteq> None"
    using 2 by (auto split: option.splits)
  have 4: "match_here [Star is_digit, Mark, Star is_space, ci CHR ''m'', ci CHR ''i'',
             ci CHR ''n'', ci CHR ''u'', ci CHR ''t'', ci CHR ''e'',
             Opt (\<lambda>c. toLowerChar c = CHR ''s'')] (ds' @ sp @ word @ post) \<noteq> None"
    using assms(2) d by (intro match_Star_complete [OF _ 3]) (simp add: list_all_iff)
  show ?thesis
    using 4 assms(2) d by (auto simp add: minutes_regex_def split: option.splits)
qed

lemma minutes_none:
  assumes "regex_exec minutes_regex s = None"
  shows "\<not> says_minutes s"
proof
  assume "says_minutes s"
  then obtain pre ds sp word post where p: "s = pre @ (ds @ sp @ word @ post)" "ds \<noteq> []"
    "list_all is_digit ds" "list_all is_space sp" "toLowerCase word = ''minute''"
    unfolding says_minutes_def by auto
  show False
    using regex_exec_None [OF assms p(1)] minutes_complete [OF p(2-5), of post] by simp
qed

lemma minutes_some:
  assumes "regex_exec minutes_regex s = Some m"
  shows "\<exists>pre sp word post. s = pre @ group1 m @ sp @ word @ post \<and> group1 m \<noteq> []
           \<and> list_all is_digit (group1 m) \<and> list_all is_space sp
           \<and> toLowerCase word = ''minute''"
proof -
  obtain st ms e where m: "m = (st, ms, e)"
    by (cases m)
  from regex_exec_Some [OF assms [unfolded m]] obtain pre where pre:
    "s = pre @ st" "match_here minutes_regex st = Some (ms, e)"
    by blast
  from minutes_sound [OF pre(2)] obtain ds sp word rest where r:
    "st = ds @ sp @ word @ rest" "ds \<noteq> []" "list_all is_digit ds"
    "list_all is_space sp" "toLowerCase word = ''minute''" "ms = [st, sp @ word @ rest]"
    by blast
  have "group1 m = ds"
    using r(1,6) by (simp add: m group1_def between_def)
  then show ?thesis
    using pre(1) r by (intro exI [of _ pre] exI [of _ sp] exI [of _ word] exI [of _ rest]) simp
qed

lemma parse_when_first_fails:
  assumes "first_stage_fails pf content"
  shows "parseOllamaContent pf content =
           Inr (case minutes_from_text content of Some r \<Rightarrow> r | None \<Rightarrow> default_estimate)"
proof (cases "regex_exec ollama_json_regex content")
  case None
  then show ?thesis
    by (simp add: parseOllamaContent_def try_catch_def default_estimate_def
        split: option.splits)
next
  case (Some m)
  then have "JSON_parse pf (whole_match m) = None"
    using assms by (simp add: first_stage_fails_def)
  then show ?thesis
    using Some
    by (simp add: parseOllamaContent_def try_catch_def default_estimate_def
        split: option.splits)
qed

lemma callOllama_on_text:
  assumes "fetch ev (ollama_request est prompt) = Response status body"
    and "response_ok status"
    and "JSON_parse pf body = Some data"
    and "get_prop data ''response'' = Inr (Str content)"
  shows "callOllama pf ev est prompt = parseOllamaContent pf content"
  using assms by (simp add: callOllama_def and_then_def)

text \<open>
  What the parse stage of \<open>callOllama\<close> does on the text of a successful response. It
  never raises. It takes the leftmost piece of the text that starts with an opening brace,
  holds \<open>"minutes"\<close> and ends with a closing brace, which runs from the first opening
  brace to the last closing brace of the text, and returns what \<open>JSON.parse\<close> makes of
  it; when there is no such piece or it is not JSON, it returns the number that stands
  before the word \<open>minute\<close>; when there is no such number either, it returns the
  default of 60 minutes. The text \<open>Sure! {"minutes": 45, "reasoning": "ok"} thanks\<close> gives
  45 minutes.
\<close>

lemma parseOllamaContent_cascade:
  \<open>(\<exists>v. parseOllamaContent pf content = Inr v)
   \<and> (\<forall>ev est prompt status body data.
          fetch ev (ollama_request est prompt) = Response status body
          \<and> response_ok status \<and> JSON_parse pf body = Some data
          \<and> get_prop data ''response'' = Inr (Str content) \<longrightarrow>
          callOllama pf ev est prompt = parseOllamaContent pf content)
   \<and> (\<forall>m. regex_exec ollama_json_regex content = Some m \<longrightarrow>
          (\<exists>pre post. content = pre @ whole_match m @ post \<and> object_shaped (whole_match m)
             \<and> CHR ''{'' \<notin> set pre \<and> CHR ''}'' \<notin> set post)
          \<and> (\<forall>v. JSON_parse pf (whole_match m) = Some v \<longrightarrow>
                 parseOllamaContent pf content = Inr v))
   \<and> (first_stage_fails pf content \<longrightarrow>
        (\<forall>m. regex_exec minutes_regex content = Some m \<longrightarrow>
           parseOllamaContent pf content =
             Inr (Obj [(''minutes'', Num (real (parseInt (group1 m)))),
                       (''reasoning'', Str content)])
           \<and> (\<exists>pre sp word post. content = pre @ group1 m @ sp @ word @ post
                 \<and> group1 m \<noteq> [] \<and> list_all is_digit (group1 m) \<and> list_all is_space sp
                 \<and> toLowerCase word = ''minute''))
        \<and> (regex_exec minutes_regex content = None \<longrightarrow>
             \<not> says_minutes content \<and> parseOllamaContent pf content = Inr default_estimate))
   \<and> (\<not> contains_object content \<and> \<not> says_minutes content \<longrightarrow>
        parseOllamaContent pf content = Inr default_estimate)
   \<and> (JSON_parse pf ''{"minutes": 45, "reasoning": "ok"}''
          = Some (Obj [(''minutes'', Num 45), (''reasoning'', Str ''ok'')]) \<longrightarrow>
        and_then (parseOllamaContent pf ''Sure! {"minutes": 45, "reasoning": "ok"} thanks'')
          (\<lambda>r. get_prop r ''minutes'') = Inr (Num 45))\<close>
proof (intro conjI allI impI)
  show "\<exists>v. parseOllamaContent pf content = Inr v"
    by (simp add: parseOllamaContent_def try_catch_def split: option.splits)
next
  fix ev :: env and est :: estimator and prompt status body data
  assume "fetch ev (ollama_request est prompt) = Response status body
          \<and> response_ok status \<and> JSON_parse pf body = Some data
          \<and> get_prop data ''response'' = Inr (Str content)"
  then show "callOllama pf ev est prompt = parseOllamaContent pf content"
    using callOllama_on_text by blast
next
  fix m assume m: "regex_exec ollama_json_regex content = Some m"
  show \<open>\<exists>pre post. content = pre @ whole_match m @ post \<and> object_shaped (whole_match m)
          \<and> CHR ''{'' \<notin> set pre \<and> CHR ''}'' \<notin> set post\<close>
    by (rule ollama_span [OF m])
  fix v assume "JSON_parse pf (whole_match m) = Some v"
  then show "parseOllamaContent pf content = Inr v"
    using m by (simp add: parseOllamaContent_def try_catch_def)
next
  fix m assume f: "first_stage_fails pf content"
    and m: "regex_exec minutes_regex content = Some m"
  show "parseOllamaContent pf content =
          Inr (Obj [(''minutes'', Num (real (parseInt (group1 m)))), (''reasoning'', Str content)])"
    using parse_when_first_fails [OF f] m by (simp add: minutes_from_text_def)
  show "\<exists>pre sp word post. content = pre @ group1 m @ sp @ word @ post
          \<and> group1 m \<noteq> [] \<and> list_all is_digit (group1 m) \<and> list_all is_space sp
          \<and> toLowerCase word = ''minute''"
    by (rule minutes_some [OF m])
next
  assume f: "first_stage_fails pf content" and n: "regex_exec minutes_regex content = None"
  show "\<not> says_minutes content"
    by (rule minutes_none [OF n])
  show "parseOllamaContent pf content = Inr default_estimate"
    using parse_when_first_fails [OF f] n by (simp add: minutes_from_text_def)
next
  assume a: "\<not> contains_object content \<and> \<not> says_minutes content"
  have 1: "regex_exec ollama_json_regex content = None"
  proof (cases "regex_exec ollama_json_regex content")
    case (Some m)
    from ollama_span [OF Some] have "contains_object content"
      unfolding contains_object_def by blast
    then show ?thesis using a by simp
  qed simp
  have 2: "regex_exec minutes_regex content = None"
  proof (cases "regex_exec minutes_regex content")
    case (Some m)
    from minutes_some [OF Some] have "says_minutes content"
      unfolding says_minutes_def by blast
    then show ?thesis using a by simp
  qed simp
  show "parseOllamaContent pf content = Inr default_estimate"
    using 1 2
    by (simp add: parseOllamaContent_def try_catch_def minutes_from_text_def
        default_estimate_def)
next
  assume j: \<open>JSON_parse pf ''{"minutes": 45, "reasoning": "ok"}''
          = Some (Obj [(''minutes'', Num 45), (''reasoning'', Str ''ok'')])\<close>
  have \<open>map_option whole_match
          (regex_exec ollama_json_regex ''Sure! {"minutes": 45, "reasoning": "ok"} thanks'')
        = Some ''{"minutes": 45, "reasoning": "ok"}''\<close>
    by (simp add: ollama_json_regex_def lit_def whole_match_def between_def)
  then obtain m where m:
    \<open>regex_exec ollama_json_regex ''Sure! {"minutes": 45, "reasoning": "ok"} thanks'' = Some m\<close>
    \<open>whole_match m = ''{"minutes": 45, "reasoning": "ok"}''\<close>
    by blast
  show \<open>and_then (parseOllamaContent pf ''Sure! {"minutes": 45, "reasoning": "ok"} thanks'')
          (\<lambda>r. get_prop r ''minutes'') = Inr (Num 45)\<close>
    using m j by (simp add: parseOllamaContent_def try_catch_def and_then_def get_prop_def)
qed

lemma parseOllamaContent_cascade_examples:
  \<open>and_then (parseOllamaContent example_platform
               ''Sure! {"minutes": 45, "reasoning": "ok"} thanks'')
     (\<lambda>r. get_prop r ''minutes'') = Inr (Num 45)
   \<and> first_stage_fails example_platform ''about 90 minutes''
   \<and> callOllama example_platform env_local new_TimeEstimator ''how long?''
       = Inr (Obj [(''minutes'', Num 90), (''reasoning'', Str ''about 90 minutes'')])
   \<and> first_stage_fails example_platform ''no idea''
   \<and> regex_exec minutes_regex ''no idea'' = None
   \<and> parseOllamaContent example_platform ''no idea'' = Inr default_estimate\<close>
proof -
  have j: \<open>JSON_parse example_platform ''{"minutes": 45, "reasoning": "ok"}''
          = Some (Obj [(''minutes'', Num 45), (''reasoning'', Str ''ok'')])\<close>
    by (simp add: example_platform_def)
  have f1: "first_stage_fails example_platform ''about 90 minutes''"
    by (simp add: first_stage_fails_def ollama_json_regex_def lit_def)
  have f2: "first_stage_fails example_platform ''no idea''"
    by (simp add: first_stage_fails_def ollama_json_regex_def lit_def)
  have n: "regex_exec minutes_regex ''no idea'' = None"
    by (simp add: minutes_regex_def ci_def is_digit_def)
  have \<open>map_option (\<lambda>m. real (parseInt (group1 m)))
           (regex_exec minutes_regex ''about 90 minutes'') = Some 90\<close>
    by (simp add: minutes_regex_def ci_def is_digit_def is_space_def toLowerChar_def
        upperLetters_def lowerLetters_def group1_def between_def parseInt_def digit_value_def)
  then obtain m where m: "regex_exec minutes_regex ''about 90 minutes'' = Some m"
    "real (parseInt (group1 m)) = 90"
    by blast
  have c: \<open>fetch env_local (ollama_request new_TimeEstimator ''how long?'')
             = Response 200 ''{"response": "about 90 minutes"}''
           \<and> response_ok 200
           \<and> JSON_parse example_platform ''{"response": "about 90 minutes"}''
               = Some (Obj [(''response'', Str ''about 90 minutes'')])
           \<and> get_prop (Obj [(''response'', Str ''about 90 minutes'')]) ''response''
               = Inr (Str ''about 90 minutes'')\<close>
    by (simp add: env_local_def response_ok_def example_platform_def get_prop_def)
  have p90: "parseOllamaContent example_platform ''about 90 minutes''
       = Inr (Obj [(''minutes'', Num 90), (''reasoning'', Str ''about 90 minutes'')])"
    using f1 m parseOllamaContent_cascade [of example_platform "''about 90 minutes''"]
    by simp
  have "callOllama example_platform env_local new_TimeEstimator ''how long?''
          = parseOllamaContent example_platform ''about 90 minutes''"
    using c parseOllamaContent_cascade [of example_platform "''about 90 minutes''"]
    by blast
  then show ?thesis
    using j f1 f2 n p90 parseOllamaContent_cascade [of example_platform "''no idea''"]
    by simp
qed

text \<open>
  C4. The first stage does not take the first object of the text: its span runs to the
  last closing brace. When the text holds a second pair of braces after an object with a
  \<open>minutes\<close> key, the span covers both, it is not JSON, and the cascade goes on to the
  number and to the default, although the first object alone is JSON and says 45.
\<close>

theorem parseOllamaContent_two_objects:
  \<open>JSON_parse example_platform ''{"minutes": 45, "reasoning": "ok"}''
     = Some (Obj [(''minutes'', Num 45), (''reasoning'', Str ''ok'')])
   \<and> map_option whole_match
        (regex_exec ollama_json_regex ''{"minutes": 45, "reasoning": "ok"} {"note": 1}'')
       = Some ''{"minutes": 45, "reasoning": "ok"} {"note": 1}''
   \<and> parseOllamaContent example_platform ''{"minutes": 45, "reasoning": "ok"} {"note": 1}''
       = Inr (Obj [(''minutes'', Num 60), (''reasoning'', Str ''Could not parse LLM response'')])\<close>
proof -
  have j: \<open>JSON_parse example_platform ''{"minutes": 45, "reasoning": "ok"}''
     = Some (Obj [(''minutes'', Num 45), (''reasoning'', Str ''ok'')])\<close>
    by (simp add: example_platform_def)
  have w: \<open>map_option whole_match
      (regex_exec ollama_json_regex ''{"minutes": 45, "reasoning": "ok"} {"note": 1}'')
     = Some ''{"minutes": 45, "reasoning": "ok"} {"note": 1}''\<close>
    by (simp add: ollama_json_regex_def lit_def whole_match_def between_def)
  then obtain m where m:
    \<open>regex_exec ollama_json_regex ''{"minutes": 45, "reasoning": "ok"} {"note": 1}'' = Some m\<close>
    \<open>whole_match m = ''{"minutes": 45, "reasoning": "ok"} {"note": 1}''\<close>
    by blast
  have f: \<open>first_stage_fails example_platform ''{"minutes": 45, "reasoning": "ok"} {"note": 1}''\<close>
    unfolding first_stage_fails_def m(1) by (simp add: m(2) example_platform_def)
  have n: \<open>regex_exec minutes_regex ''{"minutes": 45, "reasoning": "ok"} {"note": 1}'' = None\<close>
    by (simp add: minutes_regex_def ci_def is_digit_def is_space_def toLowerChar_def
        upperLetters_def lowerLetters_def)
  have \<open>minutes_from_text ''{"minutes": 45, "reasoning": "ok"} {"note": 1}'' = None\<close>
    unfolding minutes_from_text_def n by simp
  then show ?thesis
    using j w parse_when_first_fails [OF f] by (simp add: default_estimate_def)
qed

section \<open>Properties of the prompt\<close>

lemma after_tag_length: "length (after_tag cs) \<le> length cs"
  using length_dropWhile_le [of "\<lambda>x. x \<noteq> CHR ''>''" cs] by (simp add: after_tag_def)

lemma after_tag_set: "set (after_tag cs) \<subseteq> set cs"
proof
  fix x assume "x \<in> set (after_tag cs)"
  then have "x \<in> set (drop (Suc 0) (dropWhile (\<lambda>x. x \<noteq> CHR ''>'') cs))"
    by (simp add: after_tag_def drop_Suc)
  then have "x \<in> set (dropWhile (\<lambda>x. x \<noteq> CHR ''>'') cs)"
    by (rule in_set_dropD)
  then show "x \<in> set cs"
    by (rule set_dropWhileD)
qed

lemma star_until_gt:
  "match_here [Star (\<lambda>c. c \<noteq> CHR ''>''), One (\<lambda>c. c = CHR ''>'')] cs =
     (if CHR ''>'' \<in> set cs then Some ([], after_tag cs) else None)"
  by (induction cs) (auto simp add: after_tag_def)

lemma tag_match:
  "match_here tag_regex (c # cs) =
     (if c = CHR ''<'' \<and> CHR ''>'' \<in> set cs then Some ([], after_tag cs) else None)"
  by (simp add: tag_regex_def star_until_gt)

lemma strip_tags_Nil: "replace_all tag_regex rep [] = []"
  by (simp add: tag_regex_def)


lemma strip_tags_Cons:
  "replace_all tag_regex rep (c # cs) =
     (if c = CHR ''<'' \<and> CHR ''>'' \<in> set cs
      then rep @ replace_all tag_regex rep (after_tag cs)
      else c # replace_all tag_regex rep cs)"
  using after_tag_length [of cs]
  by (subst replace_all.simps(2)) (simp add: tag_match less_Suc_eq_le)

lemma collapse_Nil: "replace_all spaces_regex rep [] = []"
  by (simp add: spaces_regex_def)

lemma spaces_star: "match_here [Star is_space] cs = Some ([], dropWhile is_space cs)"
  by (induction cs) auto

lemma spaces_match:
  "match_here spaces_regex (c # cs) =
     (if is_space c then Some ([], dropWhile is_space cs) else None)"
  by (simp add: spaces_regex_def spaces_star)

lemma collapse_Cons:
  "replace_all spaces_regex rep (c # cs) =
     (if is_space c then rep @ replace_all spaces_regex rep (dropWhile is_space cs)
      else c # replace_all spaces_regex rep cs)"
  using length_dropWhile_le [of is_space cs]
  by (subst replace_all.simps(2)) (simp add: spaces_match less_Suc_eq_le)

declare replace_all.simps [simp del]

lemma strip_tags_set:
  "set (replace_all tag_regex '' '' s) \<subseteq> insert CHR '' '' (set s)"
proof (induction s rule: length_induct)
  case (1 s)
  show ?case
  proof (cases s)
    case Nil
    then show ?thesis by (simp add: strip_tags_Nil)
  next
    case (Cons c cs)
    have a: "set (replace_all tag_regex '' '' (after_tag cs)) \<subseteq> insert CHR '' '' (set (after_tag cs))"
      using 1 [rule_format, of "after_tag cs"] after_tag_length [of cs] Cons by simp
    have b: "set (replace_all tag_regex '' '' cs) \<subseteq> insert CHR '' '' (set cs)"
      using 1 [rule_format, of cs] Cons by simp
    show ?thesis
      using a b after_tag_set [of cs] unfolding Cons strip_tags_Cons by auto
  qed
qed

lemma strip_tags_tagfree: "tagfree (replace_all tag_regex '' '' s)"
proof (induction s rule: length_induct)
  case (1 s)
  show ?case
  proof (cases s)
    case Nil
    then show ?thesis by (simp add: strip_tags_Nil)
  next
    case (Cons c cs)
    have a: "tagfree (replace_all tag_regex '' '' (after_tag cs))"
      using 1 [rule_format, of "after_tag cs"] after_tag_length [of cs] Cons by simp
    have b: "tagfree (replace_all tag_regex '' '' cs)"
      using 1 [rule_format, of cs] Cons by simp
    show ?thesis
      using a b strip_tags_set [of cs] unfolding Cons strip_tags_Cons by auto
  qed
qed

lemma collapse_set:
  "set (replace_all spaces_regex '' '' s) \<subseteq> insert CHR '' '' (set s)"
proof (induction s rule: length_induct)
  case (1 s)
  show ?case
  proof (cases s)
    case Nil
    then show ?thesis by (simp add: collapse_Nil)
  next
    case (Cons c cs)
    have a: "set (replace_all spaces_regex '' '' (dropWhile is_space cs))
               \<subseteq> insert CHR '' '' (set (dropWhile is_space cs))"
      using 1 [rule_format, of "dropWhile is_space cs"] length_dropWhile_le [of is_space cs] Cons
      by simp
    have b: "set (replace_all spaces_regex '' '' cs) \<subseteq> insert CHR '' '' (set cs)"
      using 1 [rule_format, of cs] Cons by simp
    show ?thesis
      using a b set_dropWhileD [of _ is_space cs] unfolding Cons collapse_Cons by auto
  qed
qed


lemma tagfree_no_tags: "tagfree s \<Longrightarrow> no_tags s"
  unfolding no_tags_def
proof (induction s)
  case Nil
  then show ?case by simp
next
  case (Cons c cs)
  show ?case
  proof
    assume "\<exists>u v w. c # cs = u @ ''<'' @ v @ ''>'' @ w"
    then obtain u v w where e: "c # cs = u @ ''<'' @ v @ ''>'' @ w"
      by blast
    show False
    proof (cases u)
      case Nil
      then show ?thesis using e Cons.prems by auto
    next
      case (Cons a u')
      then have "cs = u' @ ''<'' @ v @ ''>'' @ w"
        using e by simp
      then show ?thesis using Cons.IH Cons.prems by auto
    qed
  qed
qed

lemma tagfree_append: "tagfree (u @ v) \<Longrightarrow> tagfree u \<and> tagfree v"
  by (induction u) auto

lemma tagfree_dropWhile: "tagfree s \<Longrightarrow> tagfree (dropWhile P s)"
  using tagfree_append [of "takeWhile P s" "dropWhile P s"] by simp

lemma collapse_tagfree: "tagfree s \<Longrightarrow> tagfree (replace_all spaces_regex '' '' s)"
proof (induction s rule: length_induct)
  case (1 s)
  show ?case
  proof (cases s)
    case Nil
    then show ?thesis by (simp add: collapse_Nil)
  next
    case (Cons c cs)
    have cs: "tagfree cs"
      using "1.prems" Cons by simp
    have a: "tagfree (replace_all spaces_regex '' '' (dropWhile is_space cs))"
      using 1(1) [rule_format, of "dropWhile is_space cs"] length_dropWhile_le [of is_space cs]
        Cons tagfree_dropWhile [OF cs] by simp
    have b: "tagfree (replace_all spaces_regex '' '' cs)"
      using 1(1) [rule_format, of cs] Cons cs by simp
    show ?thesis
      using a b "1.prems" collapse_set [of cs] unfolding Cons collapse_Cons by auto
  qed
qed

lemma collapse_hd:
  "\<not> is_space (hd s) \<Longrightarrow> s \<noteq> [] \<Longrightarrow>
     replace_all spaces_regex '' '' s \<noteq> [] \<and> \<not> is_space (hd (replace_all spaces_regex '' '' s))"
  by (cases s) (simp_all add: collapse_Cons)

lemma collapse_blanks_ok: "blanks_ok (replace_all spaces_regex '' '' s)"
proof (induction s rule: length_induct)
  case (1 s)
  show ?case
  proof (cases s)
    case Nil
    then show ?thesis by (simp add: collapse_Nil)
  next
    case (Cons c cs)
    let ?d = "dropWhile is_space cs"
    have a: "blanks_ok (replace_all spaces_regex '' '' ?d)"
      using 1 [rule_format, of ?d] length_dropWhile_le [of is_space cs] Cons by simp
    have b: "blanks_ok (replace_all spaces_regex '' '' cs)"
      using 1 [rule_format, of cs] Cons by simp
    have h: "replace_all spaces_regex '' '' ?d = []
             \<or> \<not> is_space (hd (replace_all spaces_regex '' '' ?d))"
    proof (cases ?d)
      case Nil
      have "replace_all spaces_regex '' '' ?d = []"
        unfolding Nil by (rule collapse_Nil)
      then show ?thesis by blast
    next
      case (Cons x xs)
      then have "\<not> is_space (hd ?d)" "?d \<noteq> []"
        using hd_dropWhile [of is_space cs] by auto
      then show ?thesis using collapse_hd by blast
    qed
    show ?thesis
    proof (cases "is_space c")
      case True
      then show ?thesis
        using a h unfolding Cons collapse_Cons by simp
    next
      case False
      then show ?thesis
        using b unfolding Cons collapse_Cons by simp
    qed
  qed
qed

lemma blanks_ok_append: "blanks_ok (u @ v) \<Longrightarrow> blanks_ok u \<and> blanks_ok v"
proof (induction u)
  case Nil
  then show ?case by simp
next
  case (Cons a u)
  then show ?case by (cases u) auto
qed

lemma trim_split: "\<exists>l r. s = l @ trim s @ r"
proof -
  have 1: "s = takeWhile is_space s @ dropWhile is_space s"
    by simp
  have "rev (dropWhile is_space s) =
          takeWhile is_space (rev (dropWhile is_space s))
          @ dropWhile is_space (rev (dropWhile is_space s))"
    by simp
  then have "dropWhile is_space s =
          trim s @ rev (takeWhile is_space (rev (dropWhile is_space s)))"
    unfolding trim_def by (metis rev_append rev_rev_ident)
  then show ?thesis
    using 1 by metis
qed

lemma trim_ends: "trim s \<noteq> [] \<Longrightarrow> \<not> is_space (hd (trim s)) \<and> \<not> is_space (last (trim s))"
proof -
  assume n: "trim s \<noteq> []"
  let ?d = "dropWhile is_space s"
  let ?e = "dropWhile is_space (rev ?d)"
  have e: "?e \<noteq> []"
    using n by (simp add: trim_def)
  then have l: "\<not> is_space (hd ?e)"
    using hd_dropWhile [of is_space "rev ?d"] by blast
  have "last (trim s) = hd ?e"
    using e by (simp add: trim_def last_rev)
  moreover have "\<not> is_space (hd (trim s))"
  proof -
    have d: "?d \<noteq> []"
    proof
      assume z: "?d = []"
      have "?e = []"
        unfolding z by simp
      then show False using e by blast
    qed
    then have hd: "\<not> is_space (hd ?d)"
      using hd_dropWhile [of is_space s] by blast
    have "rev ?d = takeWhile is_space (rev ?d) @ ?e"
      by simp
    then have "?d = rev ?e @ rev (takeWhile is_space (rev ?d))"
      by (metis rev_append rev_rev_ident)
    then have "hd ?d = hd (rev ?e)"
      using e by (metis hd_append2 rev_is_Nil_conv)
    then show ?thesis
      using hd by (simp add: trim_def)
  qed
  ultimately show ?thesis
    using l by simp
qed

lemma blanks_ok_set: "blanks_ok s \<Longrightarrow> c \<in> set s \<Longrightarrow> is_space c \<Longrightarrow> c = CHR '' ''"
  by (induction s) auto

lemma stripHtml_no_tags: "no_tags (stripHtml html)"
proof (cases "html = []")
  case True
  then show ?thesis by (simp add: stripHtml_def no_tags_def)
next
  case False
  let ?c = "replace_all spaces_regex '' '' (replace_all tag_regex '' '' html)"
  obtain l r where "?c = l @ trim ?c @ r"
    using trim_split by blast
  then have "tagfree (l @ trim ?c @ r)"
    using collapse_tagfree [OF strip_tags_tagfree, of html] by simp
  then have "tagfree (trim ?c)"
    using tagfree_append by blast
  then show ?thesis
    using False by (simp add: stripHtml_def tagfree_no_tags)
qed

lemma stripHtml_collapsed: "collapsed (stripHtml html)"
proof (cases "html = []")
  case True
  then show ?thesis by (simp add: stripHtml_def collapsed_def)
next
  case False
  let ?c = "replace_all spaces_regex '' '' (replace_all tag_regex '' '' html)"
  obtain l r where "?c = l @ trim ?c @ r"
    using trim_split by blast
  then have "blanks_ok (l @ trim ?c @ r)"
    using collapse_blanks_ok [of "replace_all tag_regex '' '' html"] by simp
  then have ok: "blanks_ok (trim ?c)"
    using blanks_ok_append by blast
  have adjacent: "\<forall>u c d v. trim ?c = u @ [c, d] @ v \<longrightarrow> \<not> (is_space c \<and> is_space d)"
  proof (intro allI impI)
    fix u c d v assume "trim ?c = u @ [c, d] @ v"
    then have "blanks_ok (u @ (c # d # v))"
      using ok by simp
    then have "blanks_ok (c # d # v)"
      using blanks_ok_append by blast
    then show "\<not> (is_space c \<and> is_space d)"
      by auto
  qed
  have "collapsed (trim ?c)"
    unfolding collapsed_def
    using trim_ends [of ?c] blanks_ok_set [OF ok] adjacent by blast
  then show ?thesis
    using False by (simp add: stripHtml_def)
qed

text \<open>
  What the TypeScript \<open>buildPrompt\<close> renders: title, type and course always; the points
  line exactly when the points are a number, zero included; the submission-types line
  exactly when the list is not empty; the snippet line exactly when the description is
  not empty, its text free of tags, collapsed, and cut after 500 characters with three
  dots appended.
\<close>

lemma buildPrompt_renders:
  "buildPrompt pf a = prompt_around (join nl (details pf a))
   \<and> details pf a =
       [''Title: '' @ show_field (title a),
        ''Type: '' @ show_field (type a),
        ''Course: '' @ show_field (courseName a)]
       @ (case pointsPossible a of
            Some p \<Rightarrow> [''Points: '' @ show_number (numToString pf) p]
          | None \<Rightarrow> [])
       @ (case submissionTypes a of
            Some ts \<Rightarrow> if ts \<noteq> [] then [''Submission types: '' @ join '', '' ts] else []
          | None \<Rightarrow> [])
       @ (case description a of
            Some d \<Rightarrow> if d \<noteq> []
                      then [''Description snippet: '' @ truncate_text (stripHtml d) 500]
                      else []
          | None \<Rightarrow> [])
   \<and> no_tags (stripHtml d) \<and> collapsed (stripHtml d)
   \<and> (length (stripHtml d) \<le> 500 \<longrightarrow> truncate_text (stripHtml d) 500 = stripHtml d)
   \<and> (500 < length (stripHtml d) \<longrightarrow>
        truncate_text (stripHtml d) 500 = take 500 (stripHtml d) @ ''...'')"
  using stripHtml_no_tags [of d] stripHtml_collapsed [of d]
  by (simp add: buildPrompt_def details_def filter_Boolean_def List.map_filter_simps
      types_line_def snippet_line_def truncate_text_def split: option.splits)

text \<open>
  C8. The JavaScript variant of \<open>buildPrompt\<close> tests the points for truthiness: for an
  assignment worth 0 points it renders no points line, where the TypeScript variant
  renders one.
\<close>

theorem buildPrompt_js_zero_points_line_missing:
  "details_js pf homework0 = [''Title: Homework'', ''Type: assignment'', ''Course: Algebra'']
   \<and> details pf homework0 =
       [''Title: Homework'', ''Type: assignment'', ''Course: Algebra'',
        ''Points: '' @ numToString pf 0]
   \<and> buildPrompt_js pf homework0 =
       prompt_around (join nl [''Title: Homework'', ''Type: assignment'', ''Course: Algebra''])"
  by (simp add: buildPrompt_js_def details_js_def details_def filter_Boolean_def
      List.map_filter_simps types_line_def snippet_line_def homework0_def show_field_def
      truthy_number_def)

section \<open>Properties of the estimation engine\<close>

lemma single_when_ai_raises:
  assumes "sync_get ev = Inr st" "useAI (configure st est)"
    "ai_branch (getAIEstimate pf ev (configure st est) a) = Inl e"
  shows "falls_back (estimateSingle pf ev est a) (getHeuristicEstimate a)"
proof -
  obtain m where m: "getHeuristicEstimate a = Inr m"
    using heuristic_returns by blast
  show ?thesis
    unfolding falls_back_def
    using assms m
    by (intro exI [of _ "with_estimate a (Number m) ''heuristic'' (now ev)"] exI [of _ m])
       (simp add: estimateSingle_def Let_def try_catch_def heuristic_branch_def and_then_def
          with_estimate_def)
qed

lemma single_when_not_eligible:
  assumes "sync_get ev = Inr st" "\<not> useAI (configure st est)"
  shows "falls_back (estimateSingle pf ev est a) (getHeuristicEstimate a)"
proof -
  obtain m where m: "getHeuristicEstimate a = Inr m"
    using heuristic_returns by blast
  show ?thesis
    unfolding falls_back_def
    using assms m
    by (intro exI [of _ "with_estimate a (Number m) ''heuristic'' (now ev)"] exI [of _ m])
       (simp add: estimateSingle_def Let_def try_catch_def heuristic_branch_def and_then_def
          with_estimate_def)
qed

lemma single_js_when_ai_raises:
  assumes "sync_get ev = Inr st" "truthy (apiKey (configure_js st est))"
    "ai_branch (getAIEstimate_js pf ev (configure_js st est) a) = Inl e"
  shows "falls_back (estimateSingle_js pf ev est a) (getHeuristicEstimate_js a)"
proof -
  obtain m where m: "getHeuristicEstimate_js a = Inr m"
    using heuristic_js_returns by blast
  show ?thesis
    unfolding falls_back_def
    using assms m
    by (intro exI [of _ "with_estimate a (Number m) ''heuristic'' (now ev)"] exI [of _ m])
       (simp add: estimateSingle_js_def Let_def try_catch_def heuristic_branch_def and_then_def
          with_estimate_def)
qed

lemma single_js_when_no_key:
  assumes "sync_get ev = Inr st" "\<not> truthy (apiKey (configure_js st est))"
  shows "falls_back (estimateSingle_js pf ev est a) (getHeuristicEstimate_js a)"
proof -
  obtain m where m: "getHeuristicEstimate_js a = Inr m"
    using heuristic_js_returns by blast
  show ?thesis
    unfolding falls_back_def
    using assms m
    by (intro exI [of _ "with_estimate a (Number m) ''heuristic'' (now ev)"] exI [of _ m])
       (simp add: estimateSingle_js_def Let_def try_catch_def heuristic_branch_def and_then_def
          with_estimate_def)
qed

text \<open>When every request fails, each backend caller raises.\<close>

lemma callOpenAI_fails: "fetch_fails pf ev \<Longrightarrow> \<exists>e. callOpenAI pf ev est prompt = Inl e"
  unfolding fetch_fails_def callOpenAI_def
  by (auto split: http_result.splits option.splits)

lemma callAnthropic_fails: "fetch_fails pf ev \<Longrightarrow> \<exists>e. callAnthropic pf ev est prompt = Inl e"
  unfolding fetch_fails_def callAnthropic_def
  by (auto split: http_result.splits option.splits)

lemma callOllama_fails: "fetch_fails pf ev \<Longrightarrow> \<exists>e. callOllama pf ev est prompt = Inl e"
  unfolding fetch_fails_def callOllama_def
  by (auto split: http_result.splits option.splits)

lemma getAIEstimate_fails:
  assumes "fetch_fails pf ev"
  shows "\<exists>e. ai_branch (getAIEstimate pf ev est a) = Inl e"
  using callOpenAI_fails [OF assms, of est "buildPrompt pf a"]
    callAnthropic_fails [OF assms, of est "buildPrompt pf a"]
    callOllama_fails [OF assms, of est "buildPrompt pf a"]
  by (auto simp add: getAIEstimate_def ai_branch_def and_then_def Let_def)

lemma getAIEstimate_js_fails:
  assumes "fetch_fails pf ev"
  shows "\<exists>e. ai_branch (getAIEstimate_js pf ev est a) = Inl e"
  using callOpenAI_fails [OF assms, of est "buildPrompt_js pf a"]
    callAnthropic_fails [OF assms, of est "buildPrompt_js pf a"]
  by (auto simp add: getAIEstimate_js_def ai_branch_def and_then_def Let_def)

lemma ineligible_not_useAI: "ineligible st \<Longrightarrow> \<not> useAI (configure st est)"
  by (auto simp add: ineligible_def useAI_def configure_def Let_def or_else_def truthy_def)

lemma ineligible_js_raises_or_no_key:
  assumes "ineligible st"
  shows "\<not> truthy (apiKey (configure_js st est))
         \<or> (\<exists>e. ai_branch (getAIEstimate_js pf ev (configure_js st est) a) = Inl e)"
  using assms
  by (auto simp add: ineligible_def configure_js_def Let_def or_else_def truthy_def
      getAIEstimate_js_def ai_branch_def and_then_def)

text \<open>
  C2. Once \<open>configure\<close> has read the settings, \<open>estimateSingle\<close> (in the TypeScript and in
  the JavaScript variant) does not raise and returns the heuristic result whenever the AI
  path raises, for whatever reason, and in particular when every request ends in a
  network error, a non-success status or an unparseable body: the object returned has
  \<open>estimationMethod\<close> \<open>heuristic\<close>, and its \<open>estimatedMinutes\<close> is the number that
  \<open>getHeuristicEstimate\<close> returns for the assignment. When the provider is \<open>none\<close>, or a
  hosted provider has no non-empty credential, the TypeScript variant does not enter the
  AI path, and both variants return the heuristic result.
\<close>

theorem estimateSingle_falls_back_to_heuristic:
  assumes "sync_get ev = Inr st"
  shows "(useAI (configure st est)
            \<and> (\<exists>e. ai_branch (getAIEstimate pf ev (configure st est) a) = Inl e)
          \<longrightarrow> falls_back (estimateSingle pf ev est a) (getHeuristicEstimate a))
       \<and> (truthy (apiKey (configure_js st est))
            \<and> (\<exists>e. ai_branch (getAIEstimate_js pf ev (configure_js st est) a) = Inl e)
          \<longrightarrow> falls_back (estimateSingle_js pf ev est a) (getHeuristicEstimate_js a))
       \<and> (fetch_fails pf ev
          \<longrightarrow> falls_back (estimateSingle pf ev est a) (getHeuristicEstimate a)
              \<and> falls_back (estimateSingle_js pf ev est a) (getHeuristicEstimate_js a))
       \<and> (ineligible st
          \<longrightarrow> \<not> useAI (configure st est)
              \<and> falls_back (estimateSingle pf ev est a) (getHeuristicEstimate a)
              \<and> falls_back (estimateSingle_js pf ev est a) (getHeuristicEstimate_js a))"
proof (intro conjI impI)
  assume "useAI (configure st est)
            \<and> (\<exists>e. ai_branch (getAIEstimate pf ev (configure st est) a) = Inl e)"
  then show "falls_back (estimateSingle pf ev est a) (getHeuristicEstimate a)"
    using single_when_ai_raises [OF assms] by blast
next
  assume "truthy (apiKey (configure_js st est))
            \<and> (\<exists>e. ai_branch (getAIEstimate_js pf ev (configure_js st est) a) = Inl e)"
  then show "falls_back (estimateSingle_js pf ev est a) (getHeuristicEstimate_js a)"
    using single_js_when_ai_raises [OF assms] by blast
next
  assume f: "fetch_fails pf ev"
  show "falls_back (estimateSingle pf ev est a) (getHeuristicEstimate a)"
    using getAIEstimate_fails [OF f, of "configure st est" a]
      single_when_ai_raises [OF assms] single_when_not_eligible [OF assms]
    by blast
  show "falls_back (estimateSingle_js pf ev est a) (getHeuristicEstimate_js a)"
    using getAIEstimate_js_fails [OF f, of "configure_js st est" a]
      single_js_when_ai_raises [OF assms] single_js_when_no_key [OF assms]
    by blast
next
  assume i: "ineligible st"
  show n: "\<not> useAI (configure st est)"
    using ineligible_not_useAI [OF i] .
  show "falls_back (estimateSingle pf ev est a) (getHeuristicEstimate a)"
    using single_when_not_eligible [OF assms n] .
  show "falls_back (estimateSingle_js pf ev est a) (getHeuristicEstimate_js a)"
    using ineligible_js_raises_or_no_key [OF i, of est pf ev a]
      single_js_when_ai_raises [OF assms] single_js_when_no_key [OF assms]
    by blast
qed

theorem estimateSingle_falls_back_to_heuristic_witness:
  "useAI (configure settings_openai new_TimeEstimator)
   \<and> (\<exists>e. ai_branch (getAIEstimate example_platform (env_offline settings_openai)
                (configure settings_openai new_TimeEstimator) quiz10) = Inl e)
   \<and> fetch_fails example_platform (env_offline settings_openai)
   \<and> ineligible settings_none
   \<and> getHeuristicEstimate quiz10 = Inr (Fin 40)
   \<and> getHeuristicEstimate_js quiz10 = Inr (Fin 40)
   \<and> (\<exists>r. fst (estimateSingle example_platform (env_offline settings_openai)
                 new_TimeEstimator quiz10) = Inr r
          \<and> other r ''estimationMethod'' = Some (Str ''heuristic'')
          \<and> other r ''estimatedMinutes'' = Some (Num 40))
   \<and> (\<exists>r. fst (estimateSingle_js example_platform (env_offline settings_openai)
                 new_TimeEstimator quiz10) = Inr r
          \<and> other r ''estimationMethod'' = Some (Str ''heuristic'')
          \<and> other r ''estimatedMinutes'' = Some (Num 40))
   \<and> (\<exists>r. fst (estimateSingle example_platform (env_offline settings_none)
                 new_TimeEstimator quiz10) = Inr r
          \<and> other r ''estimationMethod'' = Some (Str ''heuristic'')
          \<and> other r ''estimatedMinutes'' = Some (Num 40))
   \<and> (\<exists>r. fst (estimateSingle_js example_platform (env_offline settings_none)
                 new_TimeEstimator quiz10) = Inr r
          \<and> other r ''estimationMethod'' = Some (Str ''heuristic'')
          \<and> other r ''estimatedMinutes'' = Some (Num 40))"
proof -
  have s1: "sync_get (env_offline settings_openai) = Inr settings_openai"
    by (simp add: env_offline_def)
  have s2: "sync_get (env_offline settings_none) = Inr settings_none"
    by (simp add: env_offline_def)
  have u: "useAI (configure settings_openai new_TimeEstimator)"
    by (simp add: useAI_def configure_def settings_openai_def new_TimeEstimator_def
        or_else_def truthy_def Let_def)
  have r: "ai_branch (getAIEstimate example_platform (env_offline settings_openai)
             (configure settings_openai new_TimeEstimator) quiz10) = Inl FetchFailed"
    by (simp add: ai_branch_def and_then_def getAIEstimate_def callOpenAI_def env_offline_def
        configure_def settings_openai_def new_TimeEstimator_def or_else_def Let_def)
  have f: "fetch_fails example_platform (env_offline settings_openai)"
    by (simp add: fetch_fails_def env_offline_def)
  have i: "ineligible settings_none"
    by (simp add: ineligible_def settings_none_def)
  have c: "categorizeAssignment quiz10 = ''quiz''"
    by (simp add: categorizeAssignment_def toLowerCase_def toLowerChar_def upperLetters_def
        lowerLetters_def str_includes_def or_else_def sublist_code quiz10_def)
  have h: "getHeuristicEstimate quiz10 = Inr (Fin 40)"
    "getHeuristicEstimate_js quiz10 = Inr (Fin 40)"
    unfolding getHeuristicEstimate_def getHeuristicEstimate_js_def c
    by (simp_all add: rulesFor_def defaultEstimates_def quiz10_def truthy_number_def)
  show ?thesis
    using u r f i h
      estimateSingle_falls_back_to_heuristic
        [OF s1, of new_TimeEstimator example_platform quiz10]
      estimateSingle_falls_back_to_heuristic
        [OF s2, of new_TimeEstimator example_platform quiz10]
    unfolding falls_back_def
    by simp
qed

text \<open>
  The AI path is taken when it works: with the local provider and a model that answers
  \<open>about 90 minutes\<close>, the estimate is 90 minutes by the method \<open>ai\<close>.
\<close>

lemma configure_local:
  "configure settings_local new_TimeEstimator =
     \<lparr>aiProvider = Some ''local'', apiKey = None, model = ''gpt-3.5-turbo'',
      localLlmUrl = ''http://localhost:11434'', localLlmModel = ''qwen2.5-coder:1.5b''\<rparr>"
  by (simp add: configure_def settings_local_def new_TimeEstimator_def or_else_def Let_def)

lemma parse_about_90:
  "parseOllamaContent example_platform ''about 90 minutes''
     = Inr (Obj [(''minutes'', Num 90), (''reasoning'', Str ''about 90 minutes'')])"
proof -
  have \<open>map_option (\<lambda>m. real (parseInt (group1 m)))
           (regex_exec minutes_regex ''about 90 minutes'') = Some 90\<close>
    by (simp add: minutes_regex_def ci_def is_digit_def is_space_def toLowerChar_def
        upperLetters_def lowerLetters_def group1_def between_def parseInt_def digit_value_def)
  then obtain x where x: "regex_exec minutes_regex ''about 90 minutes'' = Some x"
    "real (parseInt (group1 x)) = 90"
    by blast
  have m: "minutes_from_text ''about 90 minutes''
          = Some (Obj [(''minutes'', Num 90), (''reasoning'', Str ''about 90 minutes'')])"
    unfolding minutes_from_text_def x(1) by (simp add: x(2))
  have n: "regex_exec ollama_json_regex ''about 90 minutes'' = None"
    by (simp add: ollama_json_regex_def lit_def)
  show ?thesis
    unfolding parseOllamaContent_def n m by (simp add: try_catch_def)
qed

lemma callOllama_local:
  "callOllama example_platform env_local est prompt
     = Inr (Obj [(''minutes'', Num 90), (''reasoning'', Str ''about 90 minutes'')])"
proof -
  have c: \<open>fetch env_local (ollama_request est prompt)
             = Response 200 ''{"response": "about 90 minutes"}''\<close>
    \<open>response_ok 200\<close>
    \<open>JSON_parse example_platform ''{"response": "about 90 minutes"}''
               = Some (Obj [(''response'', Str ''about 90 minutes'')])\<close>
    \<open>get_prop (Obj [(''response'', Str ''about 90 minutes'')]) ''response''
               = Inr (Str ''about 90 minutes'')\<close>
    by (simp_all add: env_local_def response_ok_def example_platform_def get_prop_def)
  show ?thesis
    using callOllama_on_text [OF c] parse_about_90 by simp
qed

lemma estimateSingle_local_example:
  "fst (estimateSingle example_platform env_local new_TimeEstimator quiz10)
     = Inr (with_estimate quiz10 (Num 90) ''ai'' 1000)"
proof -
  have e: "sync_get env_local = Inr settings_local" "now env_local = 1000"
    by (simp_all add: env_local_def)
  have u: "useAI (configure settings_local new_TimeEstimator)"
    by (simp add: configure_local useAI_def)
  have g: "getAIEstimate example_platform env_local
             (configure settings_local new_TimeEstimator) quiz10
           = Inr (Obj [(''minutes'', Num 90), (''reasoning'', Str ''about 90 minutes'')])"
    by (simp add: getAIEstimate_def configure_local Let_def callOllama_local)
  have a: "ai_branch (Inr (Obj [(''minutes'', Num 90), (''reasoning'', Str ''about 90 minutes'')]))
           = Inr (Num 90, ''ai'')"
    by (simp add: ai_branch_def and_then_def get_prop_def)
  show ?thesis
    by (simp add: estimateSingle_def e u g a try_catch_def Let_def)
qed

lemma single_returns:
  assumes "sync_get ev = Inr st"
  shows "\<exists>minutes how. estimateSingle pf ev est a =
           (Inr (with_estimate a minutes how (now ev)), configure st est)
         \<and> (how = ''ai'' \<or> how = ''heuristic'')"
proof -
  obtain m where m: "getHeuristicEstimate a = Inr m"
    using heuristic_returns by blast
  show ?thesis
    using assms m
    by (auto simp add: estimateSingle_def Let_def try_catch_def heuristic_branch_def
        ai_branch_def and_then_def split: sum.splits)
qed

lemma useAI_configure: "useAI (configure st est) = useAI (configure st est')"
  by (simp add: useAI_def configure_def Let_def)

lemma getAIEstimate_configure:
  "getAIEstimate pf ev (configure st est) a = getAIEstimate pf ev (configure st est') a"
  by (simp add: getAIEstimate_def configure_def Let_def callOpenAI_def callAnthropic_def
      callOllama_def openai_request_def anthropic_request_def ollama_request_def)

text \<open>What a call returns does not depend on what earlier calls left in the estimator.\<close>

lemma single_state_independent:
  "fst (estimateSingle pf ev est a) = fst (estimateSingle pf ev est' a)"
proof (cases "sync_get ev")
  case (Inl e)
  then show ?thesis by (simp add: estimateSingle_def)
next
  case (Inr st)
  show ?thesis
    using useAI_configure [of st est est'] getAIEstimate_configure [of pf ev st est a est']
    by (simp add: estimateSingle_def Inr Let_def split: sum.splits prod.splits)
qed

text \<open>
  C9. Once \<open>configure\<close> has read the settings, \<open>estimateSingle\<close> returns an object in which
  every field of the input has its value (the six declared fields and every other field
  the input carries), and whose fields are those of the input and the three fields
  \<open>estimatedMinutes\<close>, \<open>estimationMethod\<close> and \<open>estimatedAt\<close>, the last being the time of
  the call; this for an input that carries none of the three names.
\<close>

theorem estimateSingle_frame:
  assumes "sync_get ev = Inr st"
    and "dom (other a) \<inter> added_fields = {}"
  shows "\<exists>r. fst (estimateSingle pf ev est a) = Inr r
           \<and> title r = title a \<and> type r = type a \<and> courseName r = courseName a
           \<and> pointsPossible r = pointsPossible a
           \<and> submissionTypes r = submissionTypes a
           \<and> description r = description a
           \<and> (\<forall>k \<in> dom (other a). other r k = other a k)
           \<and> dom (other r) = dom (other a) \<union> added_fields
           \<and> other r ''estimatedAt'' = Some (Num (now ev))
           \<and> (other r ''estimationMethod'' = Some (Str ''ai'')
                \<or> other r ''estimationMethod'' = Some (Str ''heuristic''))"
proof -
  obtain minutes how where r:
    "estimateSingle pf ev est a =
       (Inr (with_estimate a minutes how (now ev)), configure st est)"
    "how = ''ai'' \<or> how = ''heuristic''"
    using single_returns [OF assms(1)] by blast
  have keep: "\<forall>k \<in> dom (other a). other (with_estimate a minutes how (now ev)) k = other a k"
    using assms(2) by (auto simp add: with_estimate_def added_fields_def)
  have doms: "dom (other (with_estimate a minutes how (now ev)))
                = dom (other a) \<union> added_fields"
    by (auto simp add: with_estimate_def added_fields_def)
  show ?thesis
    using r keep doms
    by (intro exI [of _ "with_estimate a minutes how (now ev)"])
       (auto simp add: with_estimate_def)
qed

theorem estimateSingle_frame_witness:
  "dom (other quiz10) \<inter> added_fields = {}
   \<and> (\<exists>r. fst (estimateSingle example_platform (env_offline settings_none)
                 new_TimeEstimator quiz10) = Inr r
          \<and> title r = Some ''Weekly Quiz''
          \<and> other r ''id'' = Some (Num 7)
          \<and> dom (other r) = {''id''} \<union> added_fields)"
proof -
  have s: "sync_get (env_offline settings_none) = Inr settings_none"
    by (simp add: env_offline_def)
  have d: "dom (other quiz10) \<inter> added_fields = {}"
    by (simp add: quiz10_def added_fields_def)
  have q: "title quiz10 = Some ''Weekly Quiz''" "other quiz10 ''id'' = Some (Num 7)"
    "dom (other quiz10) = {''id''}"
    by (simp_all add: quiz10_def)
  show ?thesis
    using d q estimateSingle_frame [OF s d, of example_platform new_TimeEstimator]
    by fastforce
qed

lemma estimateLoop_spec:
  assumes "\<forall>k < length items. \<exists>st. sync_get (envs (i + k)) = Inr st"
  shows "\<exists>out est'. estimateLoop pf envs i est acc items = (Inr (acc @ out), est')
           \<and> length out = length items
           \<and> (\<forall>k < length items.
                 fst (estimateSingle pf (envs (i + k)) est0 (items ! k)) = Inr (out ! k))"
  using assms
proof (induction items arbitrary: i est acc)
  case Nil
  then show ?case by simp
next
  case (Cons a rest)
  from Cons.prems obtain st where st: "sync_get (envs i) = Inr st"
    by fastforce
  obtain minutes how where one:
    "estimateSingle pf (envs i) est a =
       (Inr (with_estimate a minutes how (now (envs i))), configure st est)"
    using single_returns [OF st] by blast
  let ?r = "with_estimate a minutes how (now (envs i))"
  have rest: "\<forall>k < length rest. \<exists>st. sync_get (envs (Suc i + k)) = Inr st"
    using Cons.prems by fastforce
  obtain out est' where out:
    "estimateLoop pf envs (Suc i) (configure st est) (acc @ [?r]) rest
       = (Inr ((acc @ [?r]) @ out), est')"
    "length out = length rest"
    "\<forall>k < length rest.
        fst (estimateSingle pf (envs (Suc i + k)) est0 (rest ! k)) = Inr (out ! k)"
    using Cons.IH [OF rest] by blast
  have head: "fst (estimateSingle pf (envs i) est0 a) = Inr ?r"
    using single_state_independent [of pf "envs i" est0 a est] one by simp
  have "\<forall>k < length (a # rest).
          fst (estimateSingle pf (envs (i + k)) est0 ((a # rest) ! k)) = Inr ((?r # out) ! k)"
  proof (intro allI impI)
    fix k assume k: "k < length (a # rest)"
    show "fst (estimateSingle pf (envs (i + k)) est0 ((a # rest) ! k)) = Inr ((?r # out) ! k)"
    proof (cases k)
      case 0
      then show ?thesis using head by simp
    next
      case (Suc j)
      then show ?thesis using out(3) k by simp
    qed
  qed
  then show ?case
    using one out(1,2) by (intro exI [of _ "?r # out"] exI [of _ est']) simp
qed

text \<open>
  C6. When the settings can be read at each call, \<open>estimateAll\<close> returns a list as long as
  its input whose \<open>i\<close>-th element is what \<open>estimateSingle\<close> returns for the \<open>i\<close>-th input
  in the world of the \<open>i\<close>-th call, the calls being made one after the other in input
  order; for the empty list it returns the empty list.
\<close>

theorem estimateAll_in_input_order:
  assumes "\<forall>i \<le> length items. \<exists>st. sync_get (envs i) = Inr st"
  shows "\<exists>out. fst (estimateAll pf envs est items) = Inr out
           \<and> length out = length items
           \<and> (\<forall>i < length items.
                 fst (estimateSingle pf (envs (Suc i)) est (items ! i)) = Inr (out ! i))
           \<and> (items = [] \<longrightarrow> out = [])"
proof -
  from assms obtain st where st: "sync_get (envs 0) = Inr st"
    by blast
  have "\<forall>k < length items. \<exists>st. sync_get (envs (1 + k)) = Inr st"
    using assms by (simp add: Suc_le_eq)
  from estimateLoop_spec [OF this, of pf "configure st est" "[]" est]
  obtain out est' where out:
    "estimateLoop pf envs 1 (configure st est) [] items = (Inr out, est')"
    "length out = length items"
    "\<forall>k < length items.
        fst (estimateSingle pf (envs (1 + k)) est (items ! k)) = Inr (out ! k)"
    by auto
  show ?thesis
    using out st by (intro exI [of _ out]) (auto simp add: estimateAll_def)
qed

theorem estimateAll_in_input_order_witness:
  "\<exists>out. fst (estimateAll example_platform (\<lambda>i. env_offline settings_none)
                new_TimeEstimator [quiz10, essay20]) = Inr out
         \<and> length out = 2
         \<and> fst (estimateSingle example_platform (env_offline settings_none)
                  new_TimeEstimator quiz10) = Inr (out ! 0)
         \<and> fst (estimateSingle example_platform (env_offline settings_none)
                  new_TimeEstimator essay20) = Inr (out ! 1)"
proof -
  have h: "\<forall>i \<le> length [quiz10, essay20].
             \<exists>st. sync_get ((\<lambda>i. env_offline settings_none) i) = Inr st"
    by (simp add: env_offline_def)
  obtain out where out:
    "fst (estimateAll example_platform (\<lambda>i. env_offline settings_none)
            new_TimeEstimator [quiz10, essay20]) = Inr out"
    "length out = length [quiz10, essay20]"
    "\<forall>i < length [quiz10, essay20].
        fst (estimateSingle example_platform (env_offline settings_none)
               new_TimeEstimator ([quiz10, essay20] ! i)) = Inr (out ! i)"
    using estimateAll_in_input_order [OF h, of example_platform new_TimeEstimator]
    by blast
  have "fst (estimateSingle example_platform (env_offline settings_none)
               new_TimeEstimator quiz10) = Inr (out ! 0)"
    using out(3) [rule_format, of 0] by simp
  moreover have "fst (estimateSingle example_platform (env_offline settings_none)
               new_TimeEstimator essay20) = Inr (out ! 1)"
    using out(3) [rule_format, of 1] by simp
  ultimately show ?thesis
    using out(1,2) by auto
qed

section \<open>Properties of the source client\<close>

lemma request_configured:
  "truthy (baseUrl api) \<Longrightarrow> truthy (apiToken api) \<Longrightarrow> request api upstream = upstream"
  by (simp add: request_def)

lemma upcoming_loop_fetched:
  assumes "truthy (baseUrl api)" "truthy (apiToken api)"
  shows "upcoming_loop api cv acc cs = acc @ fetched cv cs"
proof (induction cs arbitrary: acc)
  case Nil
  then show ?case by (simp add: fetched_def)
next
  case (Cons c cs)
  show ?case
    by (cases "assignments_endpoint cv (course_id c)")
       (simp_all add: Cons.IH getCourseAssignments_def request_configured [OF assms]
          fetched_def)
qed

lemma insert_by_insort_key:
  assumes "dateValue pf (field x ''due_at'') \<noteq> None" "dated pf ys"
  shows "insert_by (due_cmp pf) x ys = insort_key (due_value pf) x ys"
  using assms
proof (induction ys)
  case Nil
  then show ?case by simp
next
  case (Cons y ys)
  then obtain tx ty where t: "dateValue pf (field x ''due_at'') = Some tx"
    "dateValue pf (field y ''due_at'') = Some ty"
    by (auto simp add: dated_def)
  have "dated pf ys"
    using Cons.prems by (simp add: dated_def)
  then show ?case
    using Cons.IH Cons.prems(1) t by (auto simp add: due_cmp_def due_value_def)
qed

lemma dated_insort_key:
  "dated pf (insort_key f x ys) = (dateValue pf (field x ''due_at'') \<noteq> None \<and> dated pf ys)"
  by (auto simp add: dated_def list_all_iff set_insort_key)

lemma js_sort_sort_key:
  "dated pf xs \<Longrightarrow> js_sort (due_cmp pf) xs = sort_key (due_value pf) xs"
proof (induction xs)
  case Nil
  then show ?case by (simp add: js_sort_def)
next
  case (Cons x xs)
  then have x: "dateValue pf (field x ''due_at'') \<noteq> None" and xs: "dated pf xs"
    by (simp_all add: dated_def)
  have "dated pf (sort_key (due_value pf) xs)"
    using xs by (simp add: dated_def list_all_iff)
  then show ?case
    using Cons.IH [OF xs] insert_by_insort_key [OF x]
    by (simp add: js_sort_def)
qed

text \<open>
  C5. With a configured client whose course list arrives, \<open>getUpcomingAssignments\<close>
  returns the assignments of exactly the courses whose fetch succeeds, a failing course
  being skipped, and when their due dates are readable the result is their stable sort
  by due date, ascending. With three courses of which the second fails, the result holds
  the assignments of the first and the third and no other.
\<close>

theorem getUpcomingAssignments_skips_failures:
  assumes "truthy (baseUrl api)" and "truthy (apiToken api)"
    and "courses_endpoint cv = Inr cs"
    and "dated pf (fetched cv cs)"
  shows "\<exists>out. getUpcomingAssignments pf api cv = Inr out
           \<and> out = sort_key (due_value pf) (fetched cv cs)
           \<and> sorted (map (due_value pf) out)
           \<and> mset out = mset (fetched cv cs)
           \<and> (\<forall>c1 c2 c3 a1 a3 e.
                 cs = [c1, c2, c3]
                 \<and> assignments_endpoint cv (course_id c1) = Inr a1
                 \<and> assignments_endpoint cv (course_id c2) = Inl e
                 \<and> assignments_endpoint cv (course_id c3) = Inr a3
                 \<longrightarrow> mset out = mset (map (enrich c1) a1) + mset (map (enrich c3) a3))"
proof -
  have out: "getUpcomingAssignments pf api cv = Inr (sort_key (due_value pf) (fetched cv cs))"
    using assms(3) js_sort_sort_key [OF assms(4)]
      upcoming_loop_fetched [OF assms(1,2), of cv "[]" cs]
    by (simp add: getUpcomingAssignments_def getCourses_def request_configured [OF assms(1,2)])
  have three: "\<forall>c1 c2 c3 a1 a3 e.
                 cs = [c1, c2, c3]
                 \<and> assignments_endpoint cv (course_id c1) = Inr a1
                 \<and> assignments_endpoint cv (course_id c2) = Inl e
                 \<and> assignments_endpoint cv (course_id c3) = Inr a3
                 \<longrightarrow> mset (fetched cv cs) = mset (map (enrich c1) a1) + mset (map (enrich c3) a3)"
    by (auto simp add: fetched_def)
  show ?thesis
    using out three by (intro exI [of _ "sort_key (due_value pf) (fetched cv cs)"]) simp
qed

lemma fetched_canvas3:
  "fetched canvas3 [course1, course2, course3] =
     [enrich course1 (due_on ''late'' ''2024-05-03T00:00:00Z''),
      enrich course1 (due_on ''early'' ''2024-05-01T00:00:00Z''),
      enrich course3 (due_on ''middle'' ''2024-05-02T00:00:00Z'')]"
  by (simp add: fetched_def canvas3_def course1_def course2_def course3_def)

lemma due_value_examples:
  "due_value example_platform (enrich c (due_on n ''2024-05-01T00:00:00Z'')) = 1714521600000"
  "due_value example_platform (enrich c (due_on n ''2024-05-02T00:00:00Z'')) = 1714608000000"
  "due_value example_platform (enrich c (due_on n ''2024-05-03T00:00:00Z'')) = 1714694400000"
  by (simp_all add: due_value_def example_platform_def enrich_def due_on_def field_def)

theorem getUpcomingAssignments_skips_failures_witness:
  "truthy (baseUrl api_ready) \<and> truthy (apiToken api_ready)
   \<and> courses_endpoint canvas3 = Inr [course1, course2, course3]
   \<and> dated example_platform (fetched canvas3 [course1, course2, course3])
   \<and> getUpcomingAssignments example_platform api_ready canvas3 =
       Inr [enrich course1 (due_on ''early'' ''2024-05-01T00:00:00Z''),
            enrich course3 (due_on ''middle'' ''2024-05-02T00:00:00Z''),
            enrich course1 (due_on ''late'' ''2024-05-03T00:00:00Z'')]"
proof -
  have a: "truthy (baseUrl api_ready)" and b: "truthy (apiToken api_ready)"
    by (simp_all add: api_ready_def CanvasAPI_configure_def truthy_def Let_def
        strip_trailing_slashes_def str_includes_def sublist_code)
  have c: "courses_endpoint canvas3 = Inr [course1, course2, course3]"
    by (simp add: canvas3_def)
  have d: "dated example_platform (fetched canvas3 [course1, course2, course3])"
    by (simp add: fetched_canvas3 dated_def example_platform_def enrich_def due_on_def
        field_def)
  have "sort_key (due_value example_platform) (fetched canvas3 [course1, course2, course3]) =
       [enrich course1 (due_on ''early'' ''2024-05-01T00:00:00Z''),
        enrich course3 (due_on ''middle'' ''2024-05-02T00:00:00Z''),
        enrich course1 (due_on ''late'' ''2024-05-03T00:00:00Z'')]"
    by (simp add: fetched_canvas3 due_value_examples)
  then show ?thesis
    using a b c d getUpcomingAssignments_skips_failures [OF a b c d]
    by auto
qed

section \<open>Properties of the background refresh\<close>

lemma checkForUrgentAssignments_cache:
  "cachedAssignments (snd (checkForUrgentAssignments pf w xs st)) = cachedAssignments st
   \<and> lastUpdated (snd (checkForUrgentAssignments pf w xs st)) = lastUpdated st"
  by (simp add: checkForUrgentAssignments_def Let_def split: sum.splits)

lemma refresh_never_raises: "fst (refreshAssignmentsInBackground pf w st) = Inr ()"
  by (simp add: refreshAssignmentsInBackground_def split: prod.splits sum.splits)

lemma getTodoItems_raises:
  "isl (planner_items src) \<Longrightarrow> isl (todo_items src) \<Longrightarrow> \<exists>e. getTodoItems api src = Inl e"
  by (cases "planner_items src"; cases "todo_items src")
     (simp_all add: getTodoItems_def try_catch_def request_def)

lemma refresh_body_failure:
  assumes "total_fetch_failure w"
  shows "snd (refresh_body pf w st) = st"
proof (cases "canvas_settings w")
  case (Inl e)
  then show ?thesis by (simp add: refresh_body_def)
next
  case (Inr p)
  obtain canvasUrl token where p: "p = (canvasUrl, token)"
    by (cases p)
  show ?thesis
  proof (cases "\<not> truthy canvasUrl \<or> \<not> truthy token")
    case True
    then show ?thesis using Inr p by (auto simp add: refresh_body_def)
  next
    case False
    then have "isl (planner_items (sources w))" "isl (todo_items (sources w))"
      using assms Inr p by (auto simp add: total_fetch_failure_def)
    then obtain e where
      "getTodoItems (CanvasAPI_configure (or_else canvasUrl []) (or_else token [])) (sources w)
         = Inl e"
      using getTodoItems_raises by blast
    then show ?thesis using Inr p False by (simp add: refresh_body_def Let_def)
  qed
qed

lemma refresh_body_writes:
  assumes "cachedAssignments (snd (refresh_body pf w st)) \<noteq> cachedAssignments st
           \<or> lastUpdated (snd (refresh_body pf w st)) \<noteq> lastUpdated st"
  shows "\<exists>canvasUrl token raw assignments.
           canvas_settings w = Inr (canvasUrl, token)
           \<and> getTodoItems (CanvasAPI_configure (or_else canvasUrl []) (or_else token []))
                (sources w) = Inr raw
           \<and> fst (estimateAll_js pf (estimation w) new_TimeEstimator raw) = Inr assignments
           \<and> cachedAssignments (snd (refresh_body pf w st)) = Some assignments
           \<and> lastUpdated (snd (refresh_body pf w st)) = Some (clock w)"
  using assms checkForUrgentAssignments_cache
  by (auto simp add: refresh_body_def Let_def split: sum.splits prod.splits option.splits if_splits)

lemma refresh_snd: "snd (refreshAssignmentsInBackground pf w st) = snd (refresh_body pf w st)"
  by (simp add: refreshAssignmentsInBackground_def split: prod.splits sum.splits)

text \<open>
  C7. A refresh pass never raises. When it meets a total fetch failure (settings that
  cannot be read, a missing credential, both upstream endpoints failing) it leaves the
  state, and so \<open>cachedAssignments\<close> and \<open>lastUpdated\<close>, as it was. Whenever a pass changes
  one of the two cached values, the fetch and the estimation have both succeeded, and the
  cache holds their result and the time of the write.
\<close>

theorem refresh_keeps_cache_on_failure:
  "fst (refreshAssignmentsInBackground pf w st) = Inr ()
   \<and> (total_fetch_failure w \<longrightarrow> snd (refreshAssignmentsInBackground pf w st) = st)
   \<and> (cachedAssignments (snd (refreshAssignmentsInBackground pf w st)) \<noteq> cachedAssignments st
        \<or> lastUpdated (snd (refreshAssignmentsInBackground pf w st)) \<noteq> lastUpdated st
      \<longrightarrow> (\<exists>canvasUrl token raw assignments.
             canvas_settings w = Inr (canvasUrl, token)
             \<and> getTodoItems (CanvasAPI_configure (or_else canvasUrl []) (or_else token []))
                  (sources w) = Inr raw
             \<and> fst (estimateAll_js pf (estimation w) new_TimeEstimator raw) = Inr assignments
             \<and> cachedAssignments (snd (refreshAssignmentsInBackground pf w st))
                 = Some assignments
             \<and> lastUpdated (snd (refreshAssignmentsInBackground pf w st)) = Some (clock w)))"
  using refresh_never_raises [of pf w st] refresh_body_failure [of w pf st]
    refresh_body_writes [of pf w st]
  by (simp only: refresh_snd) blast

theorem refresh_keeps_cache_on_failure_witness:
  "total_fetch_failure (world_with (Inr (None, Some ''token'')) sources_up)
   \<and> refreshAssignmentsInBackground example_platform
        (world_with (Inr (None, Some ''token'')) sources_up) state_cached
       = (Inr (), state_cached)
   \<and> total_fetch_failure
        (world_with (Inr (Some ''https://canvas.test'', Some ''token'')) sources_down)
   \<and> refreshAssignmentsInBackground example_platform
        (world_with (Inr (Some ''https://canvas.test'', Some ''token'')) sources_down)
        state_cached
       = (Inr (), state_cached)"
proof -
  have a: "total_fetch_failure (world_with (Inr (None, Some ''token'')) sources_up)"
    by (simp add: total_fetch_failure_def world_with_def truthy_def)
  have b: "total_fetch_failure
        (world_with (Inr (Some ''https://canvas.test'', Some ''token'')) sources_down)"
    by (simp add: total_fetch_failure_def world_with_def sources_down_def)
  show ?thesis
    using a b
      refresh_keeps_cache_on_failure
        [of example_platform "world_with (Inr (None, Some ''token'')) sources_up" state_cached]
      refresh_keeps_cache_on_failure
        [of example_platform
            "world_with (Inr (Some ''https://canvas.test'', Some ''token'')) sources_down"
            state_cached]
    by (metis prod.collapse)
qed

lemma heuristic_js_essay20: "getHeuristicEstimate_js essay20 = Inr (Fin 235)"
  by (simp add: getHeuristicEstimate_js_def rulesFor_def defaultEstimates_def
      categorizeAssignment_def toLowerCase_def toLowerChar_def upperLetters_def
      lowerLetters_def str_includes_def or_else_def sublist_code essay20_def
      truthy_number_def)

lemma estimateSingle_js_offline_none:
  assumes "apiKey est = None"
  shows "estimateSingle_js pf (env_offline settings_none) est essay20
     = (Inr (with_estimate essay20 (Num 235) ''heuristic'' 1000),
        configure_js settings_none est)"
proof -
  have e: "sync_get (env_offline settings_none) = Inr settings_none"
    "now (env_offline settings_none) = 1000"
    by (simp_all add: env_offline_def)
  have u: "\<not> truthy (apiKey (configure_js settings_none est))"
    using assms by (simp add: configure_js_def settings_none_def or_else_def truthy_def Let_def)
  show ?thesis
    unfolding estimateSingle_js_def e
    by (simp add: u heuristic_js_essay20 heuristic_branch_def and_then_def Let_def)
qed

lemma estimateAll_js_offline_none:
  "fst (estimateAll_js pf (\<lambda>i. env_offline settings_none) new_TimeEstimator [essay20])
     = Inr [with_estimate essay20 (Num 235) ''heuristic'' 1000]"
proof -
  have e: "sync_get (env_offline settings_none) = Inr settings_none"
    by (simp add: env_offline_def)
  have k: "apiKey (configure_js settings_none new_TimeEstimator) = None"
    by (simp add: configure_js_def settings_none_def new_TimeEstimator_def or_else_def Let_def)
  show ?thesis
    unfolding estimateAll_js_def e
    by (simp add: estimateSingle_js_offline_none [OF k])
qed

lemma configured_ready:
  assumes "token \<noteq> []"
  shows "truthy (baseUrl (CanvasAPI_configure url token))"
    and "truthy (apiToken (CanvasAPI_configure url token))"
proof -
  have "str_includes b ''/api/v1'' \<Longrightarrow> b \<noteq> []" for b
    by (auto simp add: str_includes_def)
  then show "truthy (baseUrl (CanvasAPI_configure url token))"
    by (auto simp add: CanvasAPI_configure_def truthy_def Let_def)
  show "truthy (apiToken (CanvasAPI_configure url token))"
    using assms by (simp add: CanvasAPI_configure_def truthy_def Let_def)
qed

text \<open>
  A pass that fetches and estimates writes the cache: with credentials and a todo
  endpoint that answers, the state holds the estimated list and the time of the write.
\<close>

lemma refresh_success_example:
  "refreshAssignmentsInBackground example_platform
     (world_with (Inr (Some ''https://canvas.test'', Some ''token'')) sources_up) state_cached
   = (Inr (),
      \<lparr>cachedAssignments = Some [with_estimate essay20 (Num 235) ''heuristic'' 1000],
       lastUpdated = Some 2000, notifications = []\<rparr>)"
proof -
  let ?w = "world_with (Inr (Some ''https://canvas.test'', Some ''token'')) sources_up"
  let ?api = "CanvasAPI_configure (or_else (Some ''https://canvas.test'') [])
                (or_else (Some ''token'') [])"
  have w: "canvas_settings ?w = Inr (Some ''https://canvas.test'', Some ''token'')"
    "sources ?w = sources_up" "estimation ?w = (\<lambda>i. env_offline settings_none)"
    "local_set ?w = None" "clock ?w = 2000" "notification_settings ?w = Inr True"
    by (simp_all add: world_with_def)
  have t: "truthy (Some ''https://canvas.test'')" "truthy (Some ''token'')"
    by (simp_all add: truthy_def)
  have c: "truthy (baseUrl ?api)" "truthy (apiToken ?api)"
    using configured_ready [of "or_else (Some ''token'') []"] by (simp_all add: or_else_def)
  have g: "getTodoItems ?api sources_up = Inr [essay20]"
    by (simp add: getTodoItems_def request_configured [OF c] sources_up_def try_catch_def)
  have d: "dateValue example_platform
             (field (other (with_estimate essay20 (Num 235) ''heuristic'' 1000)) ''dueDate'')
           = None"
    by (simp add: field_def with_estimate_def essay20_def example_platform_def)
  have k: "checkForUrgentAssignments example_platform ?w
             [with_estimate essay20 (Num 235) ''heuristic'' 1000] st = (Inr (), st)" for st
    by (simp add: checkForUrgentAssignments_def w d Let_def)
  have "refresh_body example_platform ?w state_cached
          = (Inr (), state_cached\<lparr>cachedAssignments :=
                        Some [with_estimate essay20 (Num 235) ''heuristic'' 1000],
                      lastUpdated := Some 2000\<rparr>)"
    unfolding refresh_body_def w
    by (simp add: t g estimateAll_js_offline_none w k Let_def)
  then show ?thesis
    by (simp add: refreshAssignmentsInBackground_def state_cached_def)
qed

end
